theory Spec2Isabelle
  imports Complex_Main
begin

section \<open>Data model of the profile engine (src/Profile/\_Classes.py)\<close>

text \<open>
  A profile point is a pair of coordinates. The numpy float64 entries of the code are
  modelled as real numbers; where numpy would produce \<open>nan\<close> or \<open>inf\<close> instead of a
  number (a division by zero), the model returns the outcome \<open>NotANumber\<close>.
  Every Python exception is a value of \<open>error\<close>, returned as \<open>Inl\<close>; an operation
  that raises returns no object.
  Leading underscores of Python names are dropped: \<open>_SetProfile\<close> is \<open>SetProfile\<close>,
  \<open>_rootprof\<close> is \<open>rootprof\<close>.
\<close>

type_synonym point = "real \<times> real"

datatype error =
    IndexError
  | ZeroDivisionError
  | TypeError
  | ValueError string
  | NotANumber
  | NoData
  | RangeError

text \<open>
  \<open>NoData\<close> is the outcome of \<open>Profile2D.__init__\<close> on an empty point list: the
  constructor returns early and the object has a name only (no \<open>data\<close>, no
  \<open>noseindex\<close>, no \<open>_rootprof\<close>). \<open>RangeError\<close> is raised only by the
  point lookup modelled from the spec (\<open>Point_spec\<close> below).
\<close>

record BasicProfile2D =
  data :: "point list"
  noseindex :: nat

text \<open>\<open>class Profile2D(BasicProfile2D)\<close>: the subclass adds a name and the retained root.\<close>

record Profile2D = BasicProfile2D +
  Name :: string
  rootprof :: BasicProfile2D

subsection \<open>\<open>BasicProfile2D._SetProfile\<close>\<close>

text \<open>
  \<^verbatim>\<open>
    i=0
    while profile[i+1][0] < profile[i][0] and i < len(profile):
        i += 1
    self.noseindex = i
  \<close>
  The condition reads \<open>profile[i+1]\<close> first, so the read is out of range as soon as
  \<open>i + 1\<close> reaches the length; the test \<open>i < len(profile)\<close> comes after it.
\<close>

function nose_scan :: "point list \<Rightarrow> nat \<Rightarrow> error + nat" where
  "nose_scan profile i =
     (if length profile \<le> i + 1 then Inl IndexError
      else if fst (profile ! (i + 1)) < fst (profile ! i) \<and> i < length profile
           then nose_scan profile (i + 1)
           else Inr i)"
  by pat_completeness auto
termination
  by (relation "measure (\<lambda>(profile, i). length profile - i)") auto

declare nose_scan.simps [simp del]

definition SetProfile ::
  "'a BasicProfile2D_scheme \<Rightarrow> point list \<Rightarrow> error + 'a BasicProfile2D_scheme" where
  "SetProfile self profile =
     (case nose_scan profile 0 of
        Inl e \<Rightarrow> Inl e
      | Inr i \<Rightarrow> Inr (self\<lparr>data := profile, noseindex := i\<rparr>))"

definition BasicProfile2D_init :: "point list \<Rightarrow> error + BasicProfile2D" where
  "BasicProfile2D_init profile = SetProfile \<lparr>data = [], noseindex = 0\<rparr> profile"

subsection \<open>\<open>BasicProfile2D.Normalize\<close>\<close>

definition vsub :: "point \<Rightarrow> point \<Rightarrow> point" where
  "vsub a b = (fst a - fst b, snd a - snd b)"

text \<open>
  Modelled from the spec: \<open>Vector.norm\<close> (the module \<open>Vector\<close> is not among the
  sources) is the Euclidean norm: the spec speaks of "the point of maximum Euclidean
  distance from the first point".
\<close>

definition Vector_norm :: "point \<Rightarrow> real" where
  "Vector_norm v = sqrt ((fst v)\<^sup>2 + (snd v)\<^sup>2)"

text \<open>
  \<^verbatim>\<open>
    for i in self.data:
        temp = Vector.norm(i - p1)
        if temp > dmax:
            dmax = temp
            nose = i
  \<close>
  The loop starts from \<open>dmax = 0.\<close> and \<open>nose = 0\<close>; subtracting the integer
  \<open>0\<close> from a point is subtracting the point \<open>(0, 0)\<close>.
\<close>

fun Normalize_loop :: "point \<Rightarrow> point list \<Rightarrow> real \<times> point \<Rightarrow> real \<times> point" where
  "Normalize_loop p1 [] (dmax, nose) = (dmax, nose)"
| "Normalize_loop p1 (i # rest) (dmax, nose) =
     (let temp = Vector_norm (vsub i p1)
      in if temp > dmax then Normalize_loop p1 rest (temp, i)
         else Normalize_loop p1 rest (dmax, nose))"

type_synonym matrix2 = "(real \<times> real) \<times> (real \<times> real)"

definition dot2 :: "matrix2 \<Rightarrow> point \<Rightarrow> point" where
  "dot2 m v = (fst (fst m) * fst v + snd (fst m) * snd v,
               fst (snd m) * fst v + snd (snd m) * snd v)"

text \<open>
  \<^verbatim>\<open>
    diff = p1 - nose
    sin = (diff / dmax).dot([0, -1])
    cos = numpy.sqrt(1 - sin ** 2)
    matrix = numpy.array([[cos, -sin], [sin, cos]]) / dmax
  \<close>
\<close>

definition Normalize_matrix :: "point \<Rightarrow> point \<Rightarrow> real \<Rightarrow> matrix2" where
  "Normalize_matrix p1 nose dmax =
     (let diff = vsub p1 nose;
          sin_v = fst diff / dmax * 0 + snd diff / dmax * (- 1);
          cos_v = sqrt (1 - sin_v\<^sup>2)
      in ((cos_v / dmax, - sin_v / dmax), (sin_v / dmax, cos_v / dmax)))"

text \<open>
  \<open>self.data[0]\<close> raises on an empty array. With \<open>dmax = 0\<close> (every point equal to
  the first) the division \<open>diff / dmax\<close> is a numpy division by zero: every entry of
  the result is \<open>nan\<close> or \<open>inf\<close>.
\<close>

definition Normalize :: "'a BasicProfile2D_scheme \<Rightarrow> error + 'a BasicProfile2D_scheme" where
  "Normalize self =
     (case data self of
        [] \<Rightarrow> Inl IndexError
      | p1 # _ \<Rightarrow>
          (case Normalize_loop p1 (data self) (0, (0, 0)) of
             (dmax, nose) \<Rightarrow>
               if dmax = 0 then Inl NotANumber
               else Inr (self\<lparr>data :=
                      map (\<lambda>i. dot2 (Normalize_matrix p1 nose dmax) (vsub i nose)) (data self)\<rparr>)))"

subsection \<open>\<open>Profile2D.__init__\<close>\<close>

text \<open>
  The argument \<open>profile\<close> is a list of rows: an optional first row holding the name
  (a string), then the points. The model takes the two apart: \<open>header\<close> is the name
  row if there is one, \<open>profile\<close> the numeric rows.
  \<^verbatim>\<open>
    self.Name = name
    if not profile == []:
        if len(profile) == 0:
            return
        elif isinstance(profile[0][0], str):
            self.Name = profile[0][0]
            i = 1
        else:
            i = 0
        self._rootprof = BasicProfile2D(profile[i:])
        self._rootprof.Normalize()
        BasicProfile2D._SetProfile(self, self._rootprof.Profile)
  \<close>
  \<open>Normalize\<close> replaces the root's \<open>data\<close> only; the root keeps the \<open>noseindex\<close> of
  the raw points.
\<close>

definition Profile2D_init :: "string option \<Rightarrow> point list \<Rightarrow> string \<Rightarrow> error + Profile2D" where
  "Profile2D_init header profile name =
     (if header = None \<and> profile = [] then Inl NoData
      else case BasicProfile2D_init profile of
             Inl e \<Rightarrow> Inl e
           | Inr root0 \<Rightarrow>
               (case Normalize root0 of
                  Inl e \<Rightarrow> Inl e
                | Inr rprof \<Rightarrow>
                    SetProfile \<lparr>data = [], noseindex = 0,
                                Name = (case header of Some s \<Rightarrow> s | None \<Rightarrow> name),
                                rootprof = rprof\<rparr> (data rprof)))"

text \<open>\<open>copy\<close>: \<open>self.__class__(self.data.copy())\<close>, with the constructor's default name.\<close>

definition copy :: "Profile2D \<Rightarrow> error + Profile2D" where
  "copy self = Profile2D_init None (data self) ''Profile''"

subsection \<open>\<open>Point\<close>, \<open>Points\<close> and the \<open>XValues\<close> property\<close>

text \<open>
  \<open>_Functions.Point\<close> is not among the sources. The engine reads component \<open>[1]\<close>
  of its result only (\<open>Points(xval)[:, 1]\<close>, \<open>Point(i)[1][1]\<close>), a point. The
  operations below take that component as a parameter \<open>pt\<close>: \<open>pt d x h\<close> is
  \<open>Point(d, x, h)[1]\<close>, or the exception it raises.
\<close>

type_synonym Point_fn = "point list \<Rightarrow> real \<Rightarrow> real \<Rightarrow> error + point"

text \<open>A list comprehension over a call that may raise: the first exception wins.\<close>

fun comprehension :: "('a \<Rightarrow> error + 'b) \<Rightarrow> 'a list \<Rightarrow> error + 'b list" where
  "comprehension f [] = Inr []"
| "comprehension f (x # xs) =
     (case f x of
        Inl e \<Rightarrow> Inl e
      | Inr y \<Rightarrow> (case comprehension f xs of Inl e \<Rightarrow> Inl e | Inr ys \<Rightarrow> Inr (y # ys)))"

text \<open>\<open>BasicProfile2D.Point\<close> with a scalar \<open>xval\<close>, and \<open>Points\<close> projected on \<open>[:, 1]\<close>.\<close>

definition Point :: "Point_fn \<Rightarrow> 'a BasicProfile2D_scheme \<Rightarrow> real \<Rightarrow> real \<Rightarrow> error + point" where
  "Point pt self xval h = pt (data self) xval h"

definition Points :: "Point_fn \<Rightarrow> 'a BasicProfile2D_scheme \<Rightarrow> real list \<Rightarrow> error + point list" where
  "Points pt self xvalues = comprehension (\<lambda>x. Point pt self x (- 1)) xvalues"

text \<open>
  \<^verbatim>\<open>
    i = self.noseindex
    return numpy.concatenate((self.data[:i, 0]*-1., self.data[i:, 0]))
  \<close>
\<close>

definition GetXValues :: "'a BasicProfile2D_scheme \<Rightarrow> real list" where
  "GetXValues self =
     (let i = noseindex self
      in map (\<lambda>p. fst p * (- 1)) (take i (data self)) @ map fst (drop i (data self)))"

text \<open>
  \<open>self.Profile = self._rootprof.Points(xval)[:, 1]\<close>. For an empty \<open>xval\<close> the
  slice \<open>[:, 1]\<close> of the empty array raises \<open>IndexError\<close> before anything is
  assigned.
\<close>

definition SetXValues :: "Point_fn \<Rightarrow> Profile2D \<Rightarrow> real list \<Rightarrow> error + Profile2D" where
  "SetXValues pt self xval =
     (case Points pt (rootprof self) xval of
        Inl e \<Rightarrow> Inl e
      | Inr pts \<Rightarrow> if pts = [] then Inl IndexError else SetProfile self pts)"

text \<open>
  The state in which a call of the setter leaves the object, whether it returns or
  raises: \<open>_SetProfile\<close> assigns \<open>self.data\<close> before it scans for the nose and
  \<open>self.noseindex\<close> after it; the setter of \<open>XValues\<close> computes the points before it
  assigns anything.
\<close>

definition SetProfile_after ::
  "'a BasicProfile2D_scheme \<Rightarrow> point list \<Rightarrow> 'a BasicProfile2D_scheme" where
  "SetProfile_after self profile =
     (case nose_scan profile 0 of
        Inl e \<Rightarrow> self\<lparr>data := profile\<rparr>
      | Inr i \<Rightarrow> self\<lparr>data := profile, noseindex := i\<rparr>)"

definition SetXValues_after :: "Point_fn \<Rightarrow> Profile2D \<Rightarrow> real list \<Rightarrow> Profile2D" where
  "SetXValues_after pt self xval =
     (case Points pt (rootprof self) xval of
        Inl e \<Rightarrow> self
      | Inr pts \<Rightarrow> if pts = [] then self else SetProfile_after self pts)"

subsection \<open>The \<open>Numpoints\<close> property\<close>

definition GetLen :: "'a BasicProfile2D_scheme \<Rightarrow> nat" where
  "GetLen self = length (data self)"

text \<open>Python 2's \<open>cmp\<close>.\<close>

definition cmp :: "real \<Rightarrow> real \<Rightarrow> real" where
  "cmp a b = (if a < b then - 1 else if a = b then 0 else 1)"

definition xtemp :: "real \<Rightarrow> real" where
  "xtemp x = cmp x (1 / 2) * (1 - sin (pi * x))"

text \<open>
  \<^verbatim>\<open>
    i = num - num % 2
    xtemp = lambda x: cmp(x, 0.5)*(1-math.sin(math.pi*x))
    self.XValues = [xtemp(j * 1. / i) for j in range(i + 1)]
  \<close>
  \<open>num\<close> is a Python integer. With \<open>i = 0\<close> the first division \<open>0 * 1. / 0\<close>
  raises; with \<open>i < 0\<close> the range is empty.
\<close>

definition cosine_xvalues :: "int \<Rightarrow> real list" where
  "cosine_xvalues i = map (\<lambda>j. xtemp (real_of_int j * 1 / real_of_int i)) [0..i]"

definition SetLen :: "Point_fn \<Rightarrow> Profile2D \<Rightarrow> int \<Rightarrow> error + Profile2D" where
  "SetLen pt self num =
     (let i = num - num mod 2
      in if i = 0 then Inl ZeroDivisionError
         else SetXValues pt self (cosine_xvalues i))"

subsection \<open>The \<open>Thickness\<close> property\<close>

text \<open>
  \<^verbatim>\<open>
    if not xvals:
        xvals = set(map(abs, self.XValues))
    return numpy.array([[i, self.Point(-i)[1][1]-self.Point(i)[1][1]] for i in xvals])
  \<close>
  The set is modelled by the list of its elements without repetition; the order in which
  Python iterates over it is not modelled (the setter takes the maximum only).
\<close>

definition GetThick :: "Point_fn \<Rightarrow> 'a BasicProfile2D_scheme \<Rightarrow> error + (real \<times> real) list" where
  "GetThick pt self =
     comprehension
       (\<lambda>i. case Point pt self (- i) (- 1) of
               Inl e \<Rightarrow> Inl e
             | Inr up \<Rightarrow>
                 (case Point pt self i (- 1) of
                    Inl e \<Rightarrow> Inl e
                  | Inr low \<Rightarrow> Inr (i, snd up - snd low)))
       (remdups (map abs (GetXValues self)))"

text \<open>
  \<^verbatim>\<open>
    factor = float(newthick/max(self.Thickness[:,1]))
    new = self.Profile*[1., factor]
    self.__init__(new, self.Name+ "_" + str(newthick*100)+"%")
  \<close>
  Slicing the empty array by \<open>[:,1]\<close> raises \<open>IndexError\<close>. A maximum of \<open>0\<close> makes
  the factor \<open>inf\<close> or \<open>nan\<close>. Python's \<open>str\<close> of a float is the parameter
  \<open>str_float\<close>. \<open>__init__\<close> runs on the object itself and sets all its attributes.
\<close>

text \<open>\<open>profile * [a, b]\<close>: numpy multiplies every row by the row \<open>[a, b]\<close>.\<close>

definition times_row :: "point list \<Rightarrow> real \<times> real \<Rightarrow> point list" where
  "times_row profile r = map (\<lambda>p. (fst p * fst r, snd p * snd r)) profile"

text \<open>\<open>max(self.Thickness[:,1])\<close>\<close>

definition max_thickness :: "(real \<times> real) list \<Rightarrow> real" where
  "max_thickness thick = Max (set (map snd thick))"

definition SetThick ::
  "Point_fn \<Rightarrow> (real \<Rightarrow> string) \<Rightarrow> Profile2D \<Rightarrow> real \<Rightarrow> error + Profile2D" where
  "SetThick pt str_float self newthick =
     (case GetThick pt self of
        Inl e \<Rightarrow> Inl e
      | Inr thick \<Rightarrow>
          if thick = [] then Inl IndexError
          else if max_thickness thick = 0 then Inl NotANumber
          else let factor = newthick / max_thickness thick;
                   new = times_row (data self) (1, factor)
               in Profile2D_init None new (Name self @ ''_'' @ str_float (newthick * 100) @ ''%''))"

subsection \<open>\<open>Profile2D.__add__\<close>\<close>

text \<open>
  \<^verbatim>\<open>
    if self.Numpoints > other.Numpoints:
        first = other.copy()
        second = self
    else:
        first = self.copy()
        second = other
    if not numpy.array_equal(first.XValues, second.XValues):
        first.XValues = second.XValues
    first.Profile = first.Profile + second.Profile * numpy.array([0, 1])
    return first
  \<close>
  Both operands are \<open>Profile2D\<close> objects. The two arrays of the sum have the same
  number of rows (shown in the section on addition), so no row is lost in pairing them.
\<close>

definition add_rows :: "point list \<Rightarrow> point list \<Rightarrow> point list" where
  "add_rows a b = map2 (\<lambda>p q. (fst p + fst q * 0, snd p + snd q * 1)) a b"

definition add :: "Point_fn \<Rightarrow> Profile2D \<Rightarrow> Profile2D \<Rightarrow> error + Profile2D" where
  "add pt self other =
     (let lower = (if GetLen self > GetLen other then other else self);
          second = (if GetLen self > GetLen other then self else other)
      in case copy lower of
           Inl e \<Rightarrow> Inl e
         | Inr first \<Rightarrow>
             (case (if GetXValues first \<noteq> GetXValues second
                    then SetXValues pt first (GetXValues second) else Inr first) of
                Inl e \<Rightarrow> Inl e
              | Inr first' \<Rightarrow> SetProfile first' (add_rows (data first') (data second))))"

section \<open>Ribs (src/openglider/glider/rib.py)\<close>

type_synonym vec3 = "real \<times> real \<times> real"

text \<open>A 3x3 matrix as its three rows.\<close>

type_synonym mat3 = "vec3 \<times> vec3 \<times> vec3"

definition dot3 :: "vec3 \<Rightarrow> vec3 \<Rightarrow> real" where
  "dot3 a b = (case a of (a1, a2, a3) \<Rightarrow> case b of (b1, b2, b3) \<Rightarrow> a1 * b1 + a2 * b2 + a3 * b3)"

text \<open>\<open>m.dot(v)\<close> for a matrix and a vector.\<close>

definition mat_vec :: "mat3 \<Rightarrow> vec3 \<Rightarrow> vec3" where
  "mat_vec m v = (case m of (r1, r2, r3) \<Rightarrow> (dot3 r1 v, dot3 r2 v, dot3 r3 v))"

definition column :: "mat3 \<Rightarrow> nat \<Rightarrow> vec3" where
  "column m j =
     (case m of ((a11, a12, a13), (a21, a22, a23), (a31, a32, a33)) \<Rightarrow>
        if j = 0 then (a11, a21, a31) else if j = 1 then (a12, a22, a32) else (a13, a23, a33))"

text \<open>\<open>a.dot(b)\<close> for two matrices.\<close>

definition mat_mat :: "mat3 \<Rightarrow> mat3 \<Rightarrow> mat3" where
  "mat_mat a b =
     (case a of (r1, r2, r3) \<Rightarrow>
        ((dot3 r1 (column b 0), dot3 r1 (column b 1), dot3 r1 (column b 2)),
         (dot3 r2 (column b 0), dot3 r2 (column b 1), dot3 r2 (column b 2)),
         (dot3 r3 (column b 0), dot3 r3 (column b 1), dot3 r3 (column b 2))))"

definition vadd3 :: "vec3 \<Rightarrow> vec3 \<Rightarrow> vec3" where
  "vadd3 a b = (case a of (a1, a2, a3) \<Rightarrow> case b of (b1, b2, b3) \<Rightarrow> (a1 + b1, a2 + b2, a3 + b3))"

definition vscale3 :: "vec3 \<Rightarrow> real \<Rightarrow> vec3" where
  "vscale3 a c = (case a of (a1, a2, a3) \<Rightarrow> (a1 * c, a2 * c, a3 * c))"

text \<open>
  \<open>openglider.vector.rotation_3d\<close> is not among the sources: the rotation matrix for an
  angle and an axis is a parameter \<open>rot3\<close> of the operations below.
\<close>

type_synonym rotation_fn = "real \<Rightarrow> vec3 \<Rightarrow> mat3"

text \<open>
  The attributes of a \<open>Rib\<close>. \<open>profile_2d_data\<close> is \<open>self.profile_2d.data\<close>
  (\<open>None\<close> when the profile holds no points), \<open>aoa\<close> is the pair \<open>self._aoa\<close>,
  \<open>pos\<close> is the start point (\<open>None\<close> by default). \<open>ballooning\<close> is opaque to
  this module and left out.
\<close>

record Rib =
  name :: string
  profile_2d_data :: "point list option"
  glide :: real
  aoa :: "real \<times> bool"
  arcang :: real
  zrot :: real
  pos :: "vec3 option"
  chord :: real

text \<open>
  \<^verbatim>\<open>
    @staticmethod
    def __aoa_diff(arc_angle, glide):
        return numpy.arctan(numpy.cos(arc_angle) / glide)
  \<close>
  A \<open>glide\<close> of zero is a numpy division by zero: the quotient is \<open>inf\<close> or
  \<open>-inf\<close> with the sign of the cosine, and its arctangent is \<open>pi/2\<close> or \<open>-pi/2\<close>;
  a cosine of zero gives \<open>nan\<close>.
\<close>

definition aoa_diff :: "real \<Rightarrow> real \<Rightarrow> error + real" where
  "aoa_diff arc_angle gl =
     (if gl = 0
      then (if 0 < cos arc_angle then Inr (pi / 2)
            else if cos arc_angle < 0 then Inr (- (pi / 2))
            else Inl NotANumber)
      else Inr (arctan (cos arc_angle / gl)))"

text \<open>
  \<^verbatim>\<open>
    @property
    def aoa_absolute(self):
        if not self._aoa[1]:
            return self._aoa[0]
        else:
            return self._aoa[0] - self.__aoa_diff(self.arcang, self.glide)
  \<close>
\<close>

definition aoa_absolute :: "Rib \<Rightarrow> error + real" where
  "aoa_absolute self =
     (if \<not> snd (aoa self) then Inr (fst (aoa self))
      else case aoa_diff (arcang self) (glide self) of
             Inl e \<Rightarrow> Inl e
           | Inr d \<Rightarrow> Inr (fst (aoa self) - d))"

definition set_aoa_absolute :: "Rib \<Rightarrow> real \<Rightarrow> Rib" where
  "set_aoa_absolute self a = self\<lparr>aoa := (a, False)\<rparr>"

text \<open>
  \<^verbatim>\<open>
    @property
    def aoa_relative(self):
        if self._aoa[1]:
            return self._aoa[0]
        else:
            return self._aoa[0] + self.__aoa_diff(self.arcang, self.glide)
  \<close>
\<close>

definition aoa_relative :: "Rib \<Rightarrow> error + real" where
  "aoa_relative self =
     (if snd (aoa self) then Inr (fst (aoa self))
      else case aoa_diff (arcang self) (glide self) of
             Inl e \<Rightarrow> Inl e
           | Inr d \<Rightarrow> Inr (fst (aoa self) + d))"

definition set_aoa_relative :: "Rib \<Rightarrow> real \<Rightarrow> Rib" where
  "set_aoa_relative self a = self\<lparr>aoa := (a, True)\<rparr>"

text \<open>
  \<^verbatim>\<open>
    def rotation_rib(aoa, arc, zrot):
        rot = rotation_3d(-arc + math.pi / 2, [-1, 0, 0])
        axis = rot.dot([0, 0, 1])
        rot = rotation_3d(aoa, axis).dot(rot)
        axis = rot.dot([0, 1, 0])
        rot = rotation_3d(zrot, axis).dot(rot)
        return rot
  \<close>
\<close>

definition rotation_rib :: "rotation_fn \<Rightarrow> real \<Rightarrow> real \<Rightarrow> real \<Rightarrow> mat3" where
  "rotation_rib rot3 aoa_v arc zrot_v =
     (let rot = rot3 (- arc + pi / 2) (- 1, 0, 0);
          axis = mat_vec rot (0, 0, 1);
          rot = mat_mat (rot3 aoa_v axis) rot;
          axis = mat_vec rot (0, 1, 0);
          rot = mat_mat (rot3 zrot_v axis) rot
      in rot)"

text \<open>
  \<^verbatim>\<open>
    @cached_property('arcang', 'glide', 'zrot', '_aoa')
    def rotation_matrix(self):
        zrot = numpy.arctan(self.arcang) / self.glide * self.zrot
        return rotation_rib(self.aoa_absolute, self.arcang, zrot)
  \<close>
  This is the decorated function. It reads the four attributes the decorator names and
  nothing else, so that a value cached under these attributes is the value of the
  function; the decorator \<open>cached_property\<close> is modelled for \<open>profile_3d\<close> below.
  With a \<open>glide\<close> of zero the third angle is \<open>inf\<close> or \<open>nan\<close> and so is every
  entry of the matrix.
\<close>

definition rotation_matrix :: "rotation_fn \<Rightarrow> Rib \<Rightarrow> error + mat3" where
  "rotation_matrix rot3 self =
     (if glide self = 0 then Inl NotANumber
      else let zrot_v = arctan (arcang self) / glide self * zrot self
           in case aoa_absolute self of
                Inl e \<Rightarrow> Inl e
              | Inr a \<Rightarrow> Inr (rotation_rib rot3 a (arcang self) zrot_v))"

text \<open>
  \<^verbatim>\<open>
    def align(self, point):
        if len(point) == 2:
            return self.align([point[0], point[1], 0])
        elif len(point) == 3:
            return self.pos + self.rotation_matrix.dot(point) * self.chord
        raise ValueError("Can only Align one single 2D or 3D-Point")
  \<close>
  Adding to a \<open>pos\<close> that is \<open>None\<close> raises \<open>TypeError\<close>.
\<close>

definition align_3d :: "rotation_fn \<Rightarrow> Rib \<Rightarrow> vec3 \<Rightarrow> error + vec3" where
  "align_3d rot3 self point =
     (case rotation_matrix rot3 self of
        Inl e \<Rightarrow> (case pos self of None \<Rightarrow> Inl TypeError | Some p \<Rightarrow> Inl e)
      | Inr m \<Rightarrow>
          (case pos self of
             None \<Rightarrow> Inl TypeError
           | Some p \<Rightarrow> Inr (vadd3 p (vscale3 (mat_vec m point) (chord self)))))"

text \<open>The call of \<open>align\<close> on a point of length 2 is the branch for length 3 at \<open>z = 0\<close>.\<close>

fun align :: "rotation_fn \<Rightarrow> Rib \<Rightarrow> real list \<Rightarrow> error + vec3" where
  "align rot3 self [x, y] = align_3d rot3 self (x, y, 0)"
| "align rot3 self [x, y, z] = align_3d rot3 self (x, y, z)"
| "align rot3 self point = Inl (ValueError ''Can only Align one single 2D or 3D-Point'')"

text \<open>
  \<^verbatim>\<open>
    @cached_property('self')
    def profile_3d(self):
        if self.profile_2d.data is not None:
            return Profile3D(map(self.align, self.profile_2d.data))
        else:
            raise ValueError("no 2d-profile present fortharib at rib {}".format(
                self.name))
  \<close>
  Python 2's \<open>map\<close> builds the whole list at once. The \<open>Profile3D\<close> is modelled by
  the list of its points.
\<close>

definition profile_3d :: "rotation_fn \<Rightarrow> Rib \<Rightarrow> error + vec3 list" where
  "profile_3d rot3 self =
     (case profile_2d_data self of
        Some d \<Rightarrow> comprehension (\<lambda>p. align rot3 self [fst p, snd p]) d
      | None \<Rightarrow> Inl (ValueError (''no 2d-profile present fortharib at rib '' @ name self)))"

subsection \<open>The constructor and the assignment of attributes\<close>

text \<open>
  \<^verbatim>\<open>
    def __init__(self, profile_2d=None, ballooning=None, startpoint=None, chord=1.,
                 arcang=0, aoa=0, zrot=0,
                 glide=1, name="unnamed rib", aoa_abs=False, startpos=0.):
        self.name = name
        self.profile_2d = profile_2d or Profile2D()
        self.ballooning = ballooning
        self.glide = glide
        self._aoa = (0, 0)
        if aoa_abs:
            self.aoa_absolute = aoa
        else:
            self.aoa_relative = aoa
        self.arcang = arcang
        self.zrot = zrot
        self.pos = startpoint  # or HashedList([0, 0, 0])
        self.chord = chord
  \<close>
  The first argument of the model is the \<open>data\<close> of the rib's \<open>profile_2d\<close>. The
  start point is stored as it is given: \<open>None\<close> by default.
\<close>

definition Rib_init ::
  "point list option \<Rightarrow> vec3 option \<Rightarrow> real \<Rightarrow> real \<Rightarrow> real \<Rightarrow> real \<Rightarrow> real \<Rightarrow> string \<Rightarrow> bool
     \<Rightarrow> Rib" where
  "Rib_init profile_data startpoint chord_v arcang_v aoa_v zrot_v glide_v name_v aoa_abs =
     (let self = \<lparr>name = name_v, profile_2d_data = profile_data, glide = glide_v,
                  aoa = (0, False), arcang = arcang_v, zrot = zrot_v, pos = startpoint,
                  chord = chord_v\<rparr>
      in if aoa_abs then set_aoa_absolute self aoa_v else set_aoa_relative self aoa_v)"

text \<open>
  The attributes are public: each can be assigned after the construction, the angle of
  attack through its two setters.
\<close>

datatype assignment =
    Set_name string
  | Set_profile_2d "point list option"
  | Set_glide real
  | Set_aoa_absolute real
  | Set_aoa_relative real
  | Set_arcang real
  | Set_zrot real
  | Set_pos "vec3 option"
  | Set_chord real

fun assign :: "assignment \<Rightarrow> Rib \<Rightarrow> Rib" where
  "assign (Set_name v) self = self\<lparr>name := v\<rparr>"
| "assign (Set_profile_2d v) self = self\<lparr>profile_2d_data := v\<rparr>"
| "assign (Set_glide v) self = self\<lparr>glide := v\<rparr>"
| "assign (Set_aoa_absolute v) self = set_aoa_absolute self v"
| "assign (Set_aoa_relative v) self = set_aoa_relative self v"
| "assign (Set_arcang v) self = self\<lparr>arcang := v\<rparr>"
| "assign (Set_zrot v) self = self\<lparr>zrot := v\<rparr>"
| "assign (Set_pos v) self = self\<lparr>pos := v\<rparr>"
| "assign (Set_chord v) self = self\<lparr>chord := v\<rparr>"

subsection \<open>The cached read of \<open>profile_3d\<close>\<close>

text \<open>
  Modelled from the spec: \<open>openglider.utils.cache\<close> (\<open>cached_property\<close>,
  \<open>CachedObject\<close>) is not among the sources. The spec: "Dependency-keyed memoization
  (\<open>cached_property\<close> keyed on named fields)"; "each mutation invalidates dependent
  cached values", which are "recomputed lazily on next read"; "reading \<open>profile_3d\<close>
  twice without mutation returns identical [...] results without recomputation side
  effects". The model: beside its attributes the object holds at most one value of
  \<open>profile_3d\<close>, with the key it was computed under. A read returns the held value if
  the key of the current attributes is the held key; otherwise it runs the decorated
  function on the current attributes and holds its result under their key. Nothing is
  held when the function raises. The key taken from the attributes is the parameter
  \<open>key\<close>. The class names its hash attributes,
  \<^verbatim>\<open>
    hashlist = ('aoa_absolute', 'glide', 'arcang', 'zrot', 'chord', 'pos')  # pos
  \<close>
  and \<open>hashlist_key\<close> is the tuple of these.
\<close>

record 'k Rib_object =
  attrs :: Rib
  cached_profile_3d :: "('k \<times> vec3 list) option"


definition compute_profile_3d ::
  "(Rib \<Rightarrow> 'k) \<Rightarrow> rotation_fn \<Rightarrow> 'k Rib_object \<Rightarrow> (error + vec3 list) \<times> 'k Rib_object" where
  "compute_profile_3d key rot3 obj =
     (case profile_3d rot3 (attrs obj) of
        Inl e \<Rightarrow> (Inl e, obj)
      | Inr v \<Rightarrow> (Inr v, obj\<lparr>cached_profile_3d := Some (key (attrs obj), v)\<rparr>))"

definition read_profile_3d ::
  "(Rib \<Rightarrow> 'k) \<Rightarrow> rotation_fn \<Rightarrow> 'k Rib_object \<Rightarrow> (error + vec3 list) \<times> 'k Rib_object" where
  "read_profile_3d key rot3 obj =
     (case cached_profile_3d obj of
        None \<Rightarrow> compute_profile_3d key rot3 obj
      | Some (k, v) \<Rightarrow>
          if k = key (attrs obj) then (Inr v, obj) else compute_profile_3d key rot3 obj)"

definition hashlist_key ::
  "Rib \<Rightarrow> (error + real) \<times> real \<times> real \<times> real \<times> real \<times> vec3 option" where
  "hashlist_key self =
     (aoa_absolute self, glide self, arcang self, zrot self, chord self, pos self)"

text \<open>
  The life of a rib after its construction: reads of \<open>profile_3d\<close> and assignments of
  attributes, in any order.
\<close>

datatype operation = Read_profile_3d | Assign assignment

fun step :: "(Rib \<Rightarrow> 'k) \<Rightarrow> rotation_fn \<Rightarrow> operation \<Rightarrow> 'k Rib_object \<Rightarrow> 'k Rib_object" where
  "step key rot3 Read_profile_3d obj = snd (read_profile_3d key rot3 obj)"
| "step key rot3 (Assign a) obj = obj\<lparr>attrs := assign a (attrs obj)\<rparr>"


subsection \<open>\<open>MiniRib\<close>\<close>

text \<open>
  \<open>function_inner\<close> is the attribute \<open>__function__\<close>: the function given to the
  constructor, or the interpolation of a \<open>BezierCurve\<close> (\<open>openglider.utils.bezier\<close>,
  not among the sources) through the control points built from the two cuts.
\<close>

record MiniRib =
  y_value :: real
  front_cut :: real
  back_cut :: real
  function_inner :: "real \<Rightarrow> real"

text \<open>
  \<^verbatim>\<open>
    if not func:
        if front_cut > 0:
            points = [[front_cut, 1], [front_cut * 2. / 3 + back_cut * 1. / 3]]
        else:
            points = [[front_cut, 0]]
        if back_cut < 1:
            points = points + [[front_cut * 1. / 3 + back_cut * 2. / 3, 0], [back_cut, 1]]
        else:
            points = points + [[back_cut, 0]]
        func = BezierCurve(points).interpolation()
  \<close>
  \<open>bezier\<close> stands for \<open>lambda points: BezierCurve(points).interpolation()\<close>.
\<close>

definition MiniRib_points :: "real \<Rightarrow> real \<Rightarrow> real list list" where
  "MiniRib_points fc bc =
     (if fc > 0 then [[fc, 1], [fc * 2 / 3 + bc * 1 / 3]] else [[fc, 0]]) @
     (if bc < 1 then [[fc * 1 / 3 + bc * 2 / 3, 0], [bc, 1]] else [[bc, 0]])"

definition MiniRib_init ::
  "(real list list \<Rightarrow> real \<Rightarrow> real) \<Rightarrow> real \<Rightarrow> real \<Rightarrow> real \<Rightarrow> (real \<Rightarrow> real) option \<Rightarrow> MiniRib" where
  "MiniRib_init bezier yvalue fc bc func =
     \<lparr>y_value = yvalue, front_cut = fc, back_cut = bc,
      function_inner = (case func of Some f \<Rightarrow> f | None \<Rightarrow> bezier (MiniRib_points fc bc))\<rparr>"

text \<open>
  \<^verbatim>\<open>
    def function(self, x):
        if self.front_cut <= abs(x) <= self.back_cut:
            return min(1, max(0, self.__function__(abs(x))))
        else:
            return 1
  \<close>
\<close>

definition MiniRib_function :: "MiniRib \<Rightarrow> real \<Rightarrow> real" where
  "MiniRib_function self x =
     (if front_cut self \<le> \<bar>x\<bar> \<and> \<bar>x\<bar> \<le> back_cut self
      then min 1 (max 0 (function_inner self \<bar>x\<bar>))
      else 1)"

subsection \<open>The composition of three rotations, as the specification words it\<close>

text \<open>
  (a) a rotation by \<open>angle_a\<close> about the spanwise axis \<open>(-1, 0, 0)\<close>; (b) a rotation
  by \<open>angle_b\<close> about the canonical vertical axis \<open>(0, 0, 1)\<close> transformed through
  (a); (c) a rotation by \<open>angle_c\<close> about the canonical chordwise axis \<open>(0, 1, 0)\<close>
  transformed through the accumulated rotation of (a) and (b); applied in this order.
\<close>

definition three_rotations :: "rotation_fn \<Rightarrow> real \<Rightarrow> real \<Rightarrow> real \<Rightarrow> mat3" where
  "three_rotations rot3 angle_a angle_b angle_c =
     (let rot_a = rot3 angle_a (- 1, 0, 0);
          rot_b = rot3 angle_b (mat_vec rot_a (0, 0, 1));
          accumulated = mat_mat rot_b rot_a;
          rot_c = rot3 angle_c (mat_vec accumulated (0, 1, 0))
      in mat_mat rot_c accumulated)"

section \<open>Collaborators that are not among the sources\<close>

text \<open>
  The general theorems below hold for every \<open>pt\<close> and every \<open>rot3\<close>. The concrete
  instances of this section are used where a statement is evaluated at an input.
\<close>

subsection \<open>Point lookup\<close>

text \<open>
  Modelled from the spec: \<open>_Functions.Point\<close> is not among the sources. The spec:
  "side<0 or x<0 selects upper surface, side/x>=0 selects lower surface (sign of x for
  side=-1 sentinel argument overrides explicit h); looks up or linearly interpolates
  between the two bracketing stored points for the requested x on the requested surface";
  an x "outside [0,1] or outside stored bounds" is "a precondition violation", to "fail
  with a range error". The nose "splits curve into upper (indices < noseindex) and lower
  (indices >= noseindex) surface": the lookup finds it as \<open>_SetProfile\<close> does, the upper
  surface runs from the first point to the nose with decreasing x, the lower one from the
  nose to the last point with increasing x.
\<close>

definition interpolate :: "point \<Rightarrow> point \<Rightarrow> real \<Rightarrow> point" where
  "interpolate p q x =
     (if fst q = fst p then p
      else let t = (x - fst p) / (fst q - fst p)
           in (fst p + t * (fst q - fst p), snd p + t * (snd q - snd p)))"

fun upper_point :: "point list \<Rightarrow> real \<Rightarrow> error + point" where
  "upper_point (p # q # rest) x =
     (if fst q \<le> x \<and> x \<le> fst p then Inr (interpolate p q x)
      else upper_point (q # rest) x)"
| "upper_point ps x = Inl RangeError"

fun lower_point :: "point list \<Rightarrow> real \<Rightarrow> error + point" where
  "lower_point (p # q # rest) x =
     (if fst p \<le> x \<and> x \<le> fst q then Inr (interpolate p q x)
      else lower_point (q # rest) x)"
| "lower_point ps x = Inl RangeError"

definition Point_spec :: Point_fn where
  "Point_spec d x h =
     (if 1 < \<bar>x\<bar> then Inl RangeError
      else case nose_scan d 0 of
             Inl e \<Rightarrow> Inl RangeError
           | Inr k \<Rightarrow>
               if (if h = - 1 then x < 0 else h < 0 \<or> x < 0)
               then upper_point (take (k + 1) d) \<bar>x\<bar>
               else lower_point (drop k d) \<bar>x\<bar>)"

subsection \<open>Rotation about an axis\<close>

text \<open>
  Modelled from the spec: \<open>openglider.vector.rotation_3d\<close> is not among the sources. The
  spec lists "rotation matrix construction (2D and 3D)" among the vector primitives and
  uses it to "rotate by" an angle "about" an axis: the model is the rotation by
  \<open>angle\<close> about the normalised \<open>axis\<close> (Rodrigues' formula), meaningful for an axis
  other than zero.
\<close>

definition rotation_3d_spec :: rotation_fn where
  "rotation_3d_spec angle axis =
     (case axis of (x, y, z) \<Rightarrow>
        let n = sqrt (x\<^sup>2 + y\<^sup>2 + z\<^sup>2);
            ux = x / n; uy = y / n; uz = z / n;
            c = cos angle; s = sin angle
        in ((c + ux * ux * (1 - c), ux * uy * (1 - c) - uz * s, ux * uz * (1 - c) + uy * s),
            (uy * ux * (1 - c) + uz * s, c + uy * uy * (1 - c), uy * uz * (1 - c) - ux * s),
            (uz * ux * (1 - c) - uy * s, uz * uy * (1 - c) + ux * s, c + uz * uz * (1 - c))))"

subsection \<open>Printing a number\<close>

text \<open>
  Python's \<open>str\<close> of a number is a parameter of the thickness setter. Where the setter
  is evaluated at an input, \<open>str_is s\<close> stands for a \<open>str\<close> that prints the number at
  hand as \<open>s\<close>.
\<close>

definition str_is :: "string \<Rightarrow> real \<Rightarrow> string" where
  "str_is s r = s"

section \<open>List comprehensions\<close>

lemma comprehension_map:
  assumes "\<forall>x \<in> set xs. f x = Inr (g x)"
  shows "comprehension f xs = Inr (map g xs)"
  using assms by (induction xs) auto

lemma comprehension_length:
  "comprehension f xs = Inr ys \<Longrightarrow> length ys = length xs"
  by (induction xs arbitrary: ys) (auto split: sum.splits)

section \<open>Square roots of squares\<close>

lemma sqrt_25: "sqrt 25 = 5"
  by (rule real_sqrt_unique) simp_all

lemma sqrt_9: "sqrt 9 = 3"
  by (rule real_sqrt_unique) simp_all

section \<open>The root of an updated profile\<close>

lemma rootprof_data_update [simp]: "rootprof ((P::Profile2D)\<lparr>data := pts\<rparr>) = rootprof P"
  by (cases P) simp

lemma rootprof_noseindex_update [simp]: "rootprof ((P::Profile2D)\<lparr>noseindex := i\<rparr>) = rootprof P"
  by (cases P) simp

section \<open>The nose scan\<close>

lemma nose_scan_finds:
  assumes "k + 1 < length profile"
    and "fst (profile ! k) \<le> fst (profile ! (k + 1))"
    and "\<forall>j. i \<le> j \<and> j < k \<longrightarrow> fst (profile ! (j + 1)) < fst (profile ! j)"
    and "i \<le> k"
  shows "nose_scan profile i = Inr k"
  using assms
proof (induction "k - i" arbitrary: i)
  case 0
  then have "i = k" by simp
  with 0 show ?case by (subst nose_scan.simps) simp
next
  case (Suc d)
  then have lt: "i < k" by simp
  with Suc.prems have dec: "fst (profile ! (i + 1)) < fst (profile ! i)" by simp
  have "nose_scan profile (i + 1) = Inr k"
    using Suc.hyps Suc.prems lt by (intro Suc.hyps(1)) auto
  with dec lt Suc.prems(1) show ?case by (subst nose_scan.simps) simp
qed

lemma nose_scan_overrun:
  assumes "\<forall>j. i \<le> j \<and> j + 1 < length profile \<longrightarrow> fst (profile ! (j + 1)) < fst (profile ! j)"
  shows "nose_scan profile i = Inl IndexError"
  using assms
proof (induction "length profile - i" arbitrary: i)
  case 0
  then show ?case by (subst nose_scan.simps) simp
next
  case (Suc d)
  show ?case
  proof (cases "length profile \<le> i + 1")
    case True
    then show ?thesis by (subst nose_scan.simps) simp
  next
    case False
    then have dec: "fst (profile ! (i + 1)) < fst (profile ! i)" using Suc.prems by simp
    have "nose_scan profile (i + 1) = Inl IndexError"
      using Suc.hyps Suc.prems by (intro Suc.hyps(1)) auto
    with dec False show ?thesis by (subst nose_scan.simps) simp
  qed
qed

lemma nose_scan_least:
  assumes ex: "\<exists>i. i + 1 < length profile \<and> fst (profile ! i) \<le> fst (profile ! (i + 1))"
  shows "nose_scan profile 0 =
    Inr (LEAST i. i + 1 < length profile \<and> fst (profile ! i) \<le> fst (profile ! (i + 1)))"
proof -
  let ?P = "\<lambda>i. i + 1 < length profile \<and> fst (profile ! i) \<le> fst (profile ! (i + 1))"
  let ?k = "Least ?P"
  from ex have k: "?P ?k" by (metis (mono_tags, lifting) LeastI_ex)
  have below: "\<forall>j. 0 \<le> j \<and> j < ?k \<longrightarrow> fst (profile ! (j + 1)) < fst (profile ! j)"
  proof (intro allI impI)
    fix j assume j: "0 \<le> j \<and> j < ?k"
    then have "\<not> ?P j" using not_less_Least by blast
    moreover from j k have "j + 1 < length profile" by simp
    ultimately show "fst (profile ! (j + 1)) < fst (profile ! j)" by simp
  qed
  from k below show ?thesis by (intro nose_scan_finds) auto
qed

text \<open>
  C10. For a point list of any length, in particular of length at least 2 (a shorter
  list has no adjacent pair): if some adjacent pair before the end is
  non-decreasing in x, the scan stays in bounds and \<open>noseindex\<close> becomes the smallest
  index where x stops strictly decreasing; if x is strictly decreasing over the whole
  list, the scan reads \<open>profile[len(profile)]\<close> and raises \<open>IndexError\<close>; so a
  non-decreasing adjacent pair is necessary for \<open>_SetProfile\<close> (and with it every
  constructor) to return.
\<close>

theorem SetProfile_nose_scan:
  "((\<exists>i. i + 1 < length profile \<and> fst (profile ! i) \<le> fst (profile ! (i + 1))) \<longrightarrow>
            SetProfile self profile =
              Inr (self\<lparr>data := profile,
                         noseindex := (LEAST i. i + 1 < length profile \<and>
                                          fst (profile ! i) \<le> fst (profile ! (i + 1)))\<rparr>))
       \<and> ((\<forall>i. i + 1 < length profile \<longrightarrow> fst (profile ! (i + 1)) < fst (profile ! i)) \<longrightarrow>
            SetProfile self profile = Inl IndexError)
       \<and> ((\<exists>p. SetProfile self profile = Inr p) \<longrightarrow>
            (\<exists>i. i + 1 < length profile \<and> fst (profile ! i) \<le> fst (profile ! (i + 1))))"
proof (intro conjI impI)
  assume "\<exists>i. i + 1 < length profile \<and> fst (profile ! i) \<le> fst (profile ! (i + 1))"
  then show "SetProfile self profile =
      Inr (self\<lparr>data := profile,
                 noseindex := (LEAST i. i + 1 < length profile \<and>
                                  fst (profile ! i) \<le> fst (profile ! (i + 1)))\<rparr>)"
    by (simp add: SetProfile_def nose_scan_least)
next
  assume "\<forall>i. i + 1 < length profile \<longrightarrow> fst (profile ! (i + 1)) < fst (profile ! i)"
  then have "nose_scan profile 0 = Inl IndexError" by (intro nose_scan_overrun) simp
  then show "SetProfile self profile = Inl IndexError" by (simp add: SetProfile_def)
next
  assume ok: "\<exists>p. SetProfile self profile = Inr p"
  show "\<exists>i. i + 1 < length profile \<and> fst (profile ! i) \<le> fst (profile ! (i + 1))"
  proof (rule ccontr)
    assume "\<not> ?thesis"
    then have "\<forall>j. 0 \<le> j \<and> j + 1 < length profile \<longrightarrow> fst (profile ! (j + 1)) < fst (profile ! j)"
      by (simp add: not_le)
    then have "nose_scan profile 0 = Inl IndexError" by (rule nose_scan_overrun)
    with ok show False by (simp add: SetProfile_def)
  qed
qed

theorem SetProfile_nose_scan_witness:
  "SetProfile \<lparr>data = [], noseindex = 0\<rparr> [(1, 0), (1/2, 1/10), (0, 0), (1/2, -1/10), (1, 0)]
     = Inr \<lparr>data = [(1, 0), (1/2, 1/10), (0, 0), (1/2, -1/10), (1, 0)], noseindex = 2\<rparr>
   \<and> SetProfile \<lparr>data = [], noseindex = 0\<rparr> [(1, 0), (1/2, 1/10), (0, 0)] = Inl IndexError"
proof -
  let ?good = "[(1, 0), (1/2, 1/10), (0, 0), (1/2, -1/10), (1, 0)] :: point list"
  let ?bad = "[(1, 0), (1/2, 1/10), (0, 0)] :: point list"
  let ?P = "\<lambda>i. i + 1 < length ?good \<and> fst (?good ! i) \<le> fst (?good ! (i + 1))"
  have two: "?P 2" by simp
  have least: "(LEAST i. ?P i) = 2"
  proof (rule Least_equality)
    show "?P 2" by (rule two)
  next
    fix y assume y: "?P y"
    show "2 \<le> y"
    proof (rule ccontr)
      assume "\<not> 2 \<le> y"
      then have "y = 0 \<or> y = 1" by arith
      with y show False by auto
    qed
  qed
  have ex: "\<exists>i. ?P i" using two by blast
  have g: "SetProfile \<lparr>data = [], noseindex = 0\<rparr> ?good =
      Inr (\<lparr>data = [], noseindex = 0\<rparr>\<lparr>data := ?good, noseindex := (LEAST i. ?P i)\<rparr>)"
    using SetProfile_nose_scan [of ?good "\<lparr>data = [], noseindex = 0\<rparr>"] ex by simp
  have dec: "\<forall>i. i + 1 < length ?bad \<longrightarrow> fst (?bad ! (i + 1)) < fst (?bad ! i)"
  proof (intro allI impI)
    fix i assume "i + 1 < length ?bad"
    then have "i = 0 \<or> i = 1" by auto
    then show "fst (?bad ! (i + 1)) < fst (?bad ! i)" by auto
  qed
  have b: "SetProfile \<lparr>data = [], noseindex = 0\<rparr> ?bad = Inl IndexError"
    using SetProfile_nose_scan [of ?bad "\<lparr>data = [], noseindex = 0\<rparr>"] dec by simp
  from g b least show ?thesis by simp
qed

section \<open>Normalisation\<close>

lemma Normalize_loop_inv:
  assumes "Normalize_loop p1 xs (d0, n0) = (d, n)"
  shows "d0 \<le> d \<and> (\<forall>i \<in> set xs. Vector_norm (vsub i p1) \<le> d)
       \<and> ((d, n) = (d0, n0) \<or> (n \<in> set xs \<and> Vector_norm (vsub n p1) = d \<and> d0 < d))"
  using assms
proof (induction xs arbitrary: d0 n0)
  case Nil
  then show ?case by simp
next
  case (Cons i rest)
  show ?case
  proof (cases "Vector_norm (vsub i p1) > d0")
    case True
    with Cons.prems have "Normalize_loop p1 rest (Vector_norm (vsub i p1), i) = (d, n)"
      by (simp add: Let_def)
    from Cons.IH [OF this] True show ?thesis by auto
  next
    case False
    with Cons.prems have "Normalize_loop p1 rest (d0, n0) = (d, n)"
      by (simp add: Let_def)
    from Cons.IH [OF this] False show ?thesis by auto
  qed
qed

text \<open>
  The transformation of \<open>Normalize\<close>: for points that are not all equal to the first,
  every point \<open>p\<close> becomes \<open>M . (p - nose)\<close>, where \<open>nose\<close> is a point of the list at
  the maximum distance \<open>dmax\<close> from the first point.
\<close>

lemma Normalize_formula:
  assumes d: "data self = p1 # rest"
    and l: "Normalize_loop p1 (data self) (0, (0, 0)) = (dmax, nose)"
    and pos: "dmax \<noteq> 0"
  shows "nose \<in> set (data self) \<and> Vector_norm (vsub nose p1) = dmax \<and> 0 < dmax
       \<and> (\<forall>i \<in> set (data self). Vector_norm (vsub i p1) \<le> dmax)
       \<and> Normalize self =
           Inr (self\<lparr>data := map (\<lambda>i. dot2 (Normalize_matrix p1 nose dmax) (vsub i nose)) (data self)\<rparr>)"
proof -
  from Normalize_loop_inv [OF l] pos
  have "nose \<in> set (data self)" "Vector_norm (vsub nose p1) = dmax" "0 < dmax"
    "\<forall>i \<in> set (data self). Vector_norm (vsub i p1) \<le> dmax"
    by auto
  moreover from d l pos have "Normalize self =
      Inr (self\<lparr>data := map (\<lambda>i. dot2 (Normalize_matrix p1 nose dmax) (vsub i nose)) (data self)\<rparr>)"
    by (simp add: Normalize_def del: Normalize_loop.simps)
  ultimately show ?thesis by simp
qed

lemma Normalize_nose_origin: "dot2 m (vsub nose nose) = (0, 0)"
  by (simp add: dot2_def vsub_def)

lemma Normalize_matrix_eq:
  assumes "Vector_norm (vsub nose p1) = dmax" and "0 < dmax"
  shows "Normalize_matrix p1 nose dmax =
     ((\<bar>fst p1 - fst nose\<bar> / dmax\<^sup>2, (snd p1 - snd nose) / dmax\<^sup>2),
      (- (snd p1 - snd nose) / dmax\<^sup>2, \<bar>fst p1 - fst nose\<bar> / dmax\<^sup>2))"
proof -
  let ?dx = "fst p1 - fst nose" and ?dy = "snd p1 - snd nose"
  from assms have "dmax\<^sup>2 = ?dx\<^sup>2 + ?dy\<^sup>2"
    by (auto simp: Vector_norm_def vsub_def power2_commute)
  then have "?dx\<^sup>2 / dmax\<^sup>2 = (dmax\<^sup>2 - ?dy\<^sup>2) / dmax\<^sup>2" by simp
  also have "\<dots> = 1 - ?dy\<^sup>2 / dmax\<^sup>2"
    using assms(2) by (simp add: diff_divide_distrib)
  finally have "1 - (?dy / dmax)\<^sup>2 = (?dx / dmax)\<^sup>2"
    by (simp add: power_divide)
  then have "sqrt (1 - (?dy / dmax)\<^sup>2) = \<bar>?dx\<bar> / dmax"
    using assms(2) by (simp add: real_sqrt_divide)
  then show ?thesis
    using assms(2)
    by (simp add: Normalize_matrix_def vsub_def Let_def power2_eq_square, simp add: field_simps)
qed

text \<open>The first point lands at distance 1 from the origin.\<close>

lemma Normalize_first_unit:
  assumes "Vector_norm (vsub nose p1) = dmax" and "0 < dmax"
  shows "Vector_norm (dot2 (Normalize_matrix p1 nose dmax) (vsub p1 nose)) = 1"
proof -
  let ?dx = "fst p1 - fst nose" and ?dy = "snd p1 - snd nose"
  from assms have dm: "dmax\<^sup>2 = ?dx\<^sup>2 + ?dy\<^sup>2"
    by (auto simp: Vector_norm_def vsub_def power2_commute)
  have "(\<bar>?dx\<bar> * ?dx + ?dy * ?dy)\<^sup>2 + (\<bar>?dx\<bar> * ?dy - ?dy * ?dx)\<^sup>2 = (?dx\<^sup>2 + ?dy\<^sup>2)\<^sup>2"
    by (cases "0 \<le> ?dx") (simp_all add: power2_eq_square algebra_simps)
  then have "(\<bar>?dx\<bar> * ?dx + ?dy * ?dy)\<^sup>2 + (\<bar>?dx\<bar> * ?dy - ?dy * ?dx)\<^sup>2 = (dmax\<^sup>2)\<^sup>2"
    using dm by simp
  then have "((\<bar>?dx\<bar> * ?dx + ?dy * ?dy) / dmax\<^sup>2)\<^sup>2 + ((\<bar>?dx\<bar> * ?dy - ?dy * ?dx) / dmax\<^sup>2)\<^sup>2 = 1"
    using assms(2) by (simp add: power_divide add_divide_distrib [symmetric])
  moreover have "dot2 (Normalize_matrix p1 nose dmax) (vsub p1 nose) =
      ((\<bar>?dx\<bar> * ?dx + ?dy * ?dy) / dmax\<^sup>2, (\<bar>?dx\<bar> * ?dy - ?dy * ?dx) / dmax\<^sup>2)"
    using assms(2) by (simp add: Normalize_matrix_eq [OF assms] dot2_def vsub_def field_simps)
  ultimately show ?thesis by (simp add: Vector_norm_def)
qed

text \<open>
  It lands on \<open>(1, 0)\<close> when it does not lie to the left of the nose.
\<close>

lemma Normalize_first_on_axis:
  assumes "Vector_norm (vsub nose p1) = dmax" and "0 < dmax" and "fst nose \<le> fst p1"
  shows "dot2 (Normalize_matrix p1 nose dmax) (vsub p1 nose) = (1, 0)"
proof -
  let ?dx = "fst p1 - fst nose" and ?dy = "snd p1 - snd nose"
  from assms have dm: "dmax\<^sup>2 = ?dx\<^sup>2 + ?dy\<^sup>2"
    by (auto simp: Vector_norm_def vsub_def power2_commute)
  have "dot2 (Normalize_matrix p1 nose dmax) (vsub p1 nose) =
      ((\<bar>?dx\<bar> * ?dx + ?dy * ?dy) / dmax\<^sup>2, (\<bar>?dx\<bar> * ?dy - ?dy * ?dx) / dmax\<^sup>2)"
    using assms(2) by (simp add: Normalize_matrix_eq [OF assms(1,2)] dot2_def vsub_def field_simps)
  also have "\<dots> = ((?dx\<^sup>2 + ?dy\<^sup>2) / dmax\<^sup>2, 0)"
    using assms(3) by (simp add: power2_eq_square)
  also have "\<dots> = (dmax\<^sup>2 / dmax\<^sup>2, 0)" by (simp only: dm)
  also have "\<dots> = (1, 0)" using assms(2) by simp
  finally show ?thesis .
qed

text \<open>Profiles in normal form are left as they are.\<close>

lemma Normalize_fixed:
  assumes "data self = (1, 0) # rest"
    and "Normalize_loop (1, 0) (data self) (0, (0, 0)) = (1, (0, 0))"
  shows "Normalize self = Inr self"
proof -
  have m: "Normalize_matrix (1, 0) (0, 0) 1 = ((1, 0), (0, 1))"
    by (simp add: Normalize_matrix_def vsub_def Let_def)
  have id: "map (\<lambda>i. dot2 ((1, 0), (0, 1)) (vsub i (0, 0))) xs = xs" for xs :: "point list"
    by (induction xs) (simp_all add: dot2_def vsub_def)
  from Normalize_formula [OF assms] have "Normalize self =
      Inr (self\<lparr>data := map (\<lambda>i. dot2 (Normalize_matrix (1, 0) (0, 0) 1) (vsub i (0, 0))) (data self)\<rparr>)"
    by simp
  then show ?thesis by (simp only: m id) simp
qed

text \<open>The normalised points depend on the points only.\<close>

lemma Normalize_data:
  "map_sum id data (Normalize self) = map_sum id data (Normalize \<lparr>data = data self, noseindex = 0\<rparr>)"
  by (simp add: Normalize_def del: Normalize_loop.simps split: list.splits prod.splits)

text \<open>The loop and the matrix at the points \<open>(0, 0), (3, 4), (0, 1)\<close>.\<close>

lemma Normalize_loop_3_4:
  "Normalize_loop (0, 0) [(0, 0), (3, 4), (0, 1)] (0, (0, 0)) = (5, (3, 4))"
  by (simp add: Vector_norm_def vsub_def sqrt_25)

lemma Normalize_matrix_3_4:
  "Normalize_matrix (0, 0) (3, 4) 5 = ((3/25, - 4/25), (4/25, 3/25))"
  by (simp add: Normalize_matrix_def vsub_def Let_def power2_eq_square real_sqrt_divide sqrt_25 sqrt_9)

text \<open>
  C3. The claim: for points not all equal to the first, \<open>Normalize\<close> maps every point
  \<open>p\<close> to \<open>M . (p - nose)\<close> and so puts the nose at the origin and the first point on
  the x-axis at distance 1. The transformation is as claimed (\<open>Normalize_formula\<close>), the
  nose goes to the origin and the first point to distance 1; but \<open>cos = sqrt(1 - sin^2)\<close>
  is never negative, and a first point to the left of the nose is not rotated onto the
  x-axis: for the points \<open>(0, 0), (3, 4), (0, 1)\<close> the nose is \<open>(3, 4)\<close> and the first
  point goes to \<open>(7/25, -24/25)\<close>. The constructor accepts these points.
\<close>

theorem Normalize_first_point_off_axis:
  "Normalize \<lparr>data = [(0, 0), (3, 4), (0, 1)], noseindex = 0\<rparr>
     = Inr \<lparr>data = [(7/25, - 24/25), (0, 0), (3/25, - 21/25)], noseindex = 0\<rparr>
   \<and> Profile2D_init None [(0, 0), (3, 4), (0, 1)] ''Profile''
     = Inr \<lparr>data = [(7/25, - 24/25), (0, 0), (3/25, - 21/25)], noseindex = 1,
            Name = ''Profile'',
            rootprof = \<lparr>data = [(7/25, - 24/25), (0, 0), (3/25, - 21/25)], noseindex = 0\<rparr>\<rparr>"
proof -
  have n: "Normalize \<lparr>data = [(0, 0), (3, 4), (0, 1)], noseindex = 0\<rparr>
     = Inr \<lparr>data = [(7/25, - 24/25), (0, 0), (3/25, - 21/25)], noseindex = 0\<rparr>"
    by (simp add: Normalize_def Normalize_loop_3_4 Normalize_matrix_3_4 dot2_def vsub_def
        del: Normalize_loop.simps)
  have s0: "nose_scan [(0, 0), (3, 4), (0, 1)] 0 = Inr 0"
    by (simp add: nose_scan.simps)
  have s1: "nose_scan [(7/25, - 24/25), (0, 0), (3/25, - 21/25)] 0 = Inr 1"
    by (simp add: nose_scan.simps)
  from n s0 s1 show ?thesis
    by (simp add: Profile2D_init_def BasicProfile2D_init_def SetProfile_def)
qed

section \<open>Angle of attack\<close>

text \<open>
  C4. For a rib with \<open>glide \<noteq> 0\<close>, in particular \<open>glide > 0\<close>: a setter stores the angle with its tag (one
  representation); reading the stored representation returns the angle, reading the other
  one recomputes it with \<open>arctan (cos arcang / glide)\<close>, subtracted for the absolute
  and added for the relative angle; converting to the other representation and back
  returns the original angle.
\<close>

theorem aoa_duality:
  assumes "glide self \<noteq> 0"
  shows "aoa (set_aoa_relative self a) = (a, True)
       \<and> aoa (set_aoa_absolute self a) = (a, False)
       \<and> aoa_relative (set_aoa_relative self a) = Inr a
       \<and> aoa_absolute (set_aoa_absolute self a) = Inr a
       \<and> aoa_absolute (set_aoa_relative self a) = Inr (a - arctan (cos (arcang self) / glide self))
       \<and> aoa_relative (set_aoa_absolute self a) = Inr (a + arctan (cos (arcang self) / glide self))
       \<and> (\<forall>b. aoa_absolute (set_aoa_relative self a) = Inr b \<longrightarrow>
                aoa_relative (set_aoa_absolute self b) = Inr a)
       \<and> (\<forall>b. aoa_relative (set_aoa_absolute self a) = Inr b \<longrightarrow>
                aoa_absolute (set_aoa_relative self b) = Inr a)"
  using assms
  by (auto simp: aoa_absolute_def aoa_relative_def set_aoa_absolute_def set_aoa_relative_def
      aoa_diff_def)

theorem aoa_duality_witness:
  "glide \<lparr>name = ''rib'', profile_2d_data = None, glide = 1, aoa = (0, True), arcang = 0,
              zrot = 0, pos = None, chord = 1\<rparr> \<noteq> 0
   \<and> aoa_absolute (set_aoa_relative
        \<lparr>name = ''rib'', profile_2d_data = None, glide = 1, aoa = (0, True), arcang = 0,
         zrot = 0, pos = None, chord = 1\<rparr> 1) = Inr (1 - pi / 4)
   \<and> aoa_relative (set_aoa_absolute
        \<lparr>name = ''rib'', profile_2d_data = None, glide = 1, aoa = (0, True), arcang = 0,
         zrot = 0, pos = None, chord = 1\<rparr> (1 - pi / 4)) = Inr 1"
  using aoa_duality [of "\<lparr>name = ''rib'', profile_2d_data = None, glide = 1, aoa = (0, True),
      arcang = 0, zrot = 0, pos = None, chord = 1\<rparr>" 1]
  by (simp add: arctan_one)

section \<open>The blending function of a mini rib\<close>

text \<open>
  C8. For a mini rib with any cuts, in particular with
  \<open>0 \<le> front_cut \<le> back_cut \<le> 1\<close>: inside the window
  \<open>front_cut \<le> |x| \<le> back_cut\<close>, \<open>function(x)\<close> is the underlying curve's value at
  \<open>|x|\<close> clamped into \<open>[0, 1]\<close>, so it lies in \<open>[0, 1]\<close>; outside the window it is
  exactly 1.
\<close>

theorem MiniRib_function_window:
  "(front_cut self \<le> \<bar>x\<bar> \<and> \<bar>x\<bar> \<le> back_cut self \<longrightarrow>
            MiniRib_function self x = min 1 (max 0 (function_inner self \<bar>x\<bar>))
          \<and> 0 \<le> MiniRib_function self x \<and> MiniRib_function self x \<le> 1)
       \<and> (\<not> (front_cut self \<le> \<bar>x\<bar> \<and> \<bar>x\<bar> \<le> back_cut self) \<longrightarrow>
            MiniRib_function self x = 1)"
  by (simp add: MiniRib_function_def)

theorem MiniRib_function_window_witness:
  "MiniRib_function \<lparr>y_value = 1/2, front_cut = 1/5, back_cut = 4/5,
        function_inner = (\<lambda>x. 3 * x - 1)\<rparr> (- 1/2) = 1/2
   \<and> MiniRib_function \<lparr>y_value = 1/2, front_cut = 1/5, back_cut = 4/5,
        function_inner = (\<lambda>x. 3 * x - 1)\<rparr> (7/10) = 1
   \<and> MiniRib_function \<lparr>y_value = 1/2, front_cut = 1/5, back_cut = 4/5,
        function_inner = (\<lambda>x. 3 * x - 1)\<rparr> (1/4) = 0
   \<and> MiniRib_function \<lparr>y_value = 1/2, front_cut = 1/5, back_cut = 4/5,
        function_inner = (\<lambda>x. 3 * x - 1)\<rparr> (9/10) = 1"
  using MiniRib_function_window [of "\<lparr>y_value = 1/2, front_cut = 1/5, back_cut = 4/5,
        function_inner = (\<lambda>x. 3 * x - 1)\<rparr>" "- 1/2"]
    MiniRib_function_window [of "\<lparr>y_value = 1/2, front_cut = 1/5, back_cut = 4/5,
        function_inner = (\<lambda>x. 3 * x - 1)\<rparr>" "7/10"]
    MiniRib_function_window [of "\<lparr>y_value = 1/2, front_cut = 1/5, back_cut = 4/5,
        function_inner = (\<lambda>x. 3 * x - 1)\<rparr>" "1/4"]
    MiniRib_function_window [of "\<lparr>y_value = 1/2, front_cut = 1/5, back_cut = 4/5,
        function_inner = (\<lambda>x. 3 * x - 1)\<rparr>" "9/10"]
  by simp

section \<open>The rotation matrix of a rib\<close>

text \<open>
  C2 as stated fails: the third rotation is not by the rib's \<open>zrot\<close>. For a rib with
  \<open>arcang = 0\<close>, \<open>zrot = pi\<close>, absolute angle of attack 0 and \<open>glide = 1\<close> the code
  rotates by \<open>arctan(0) / 1 * pi = 0\<close> in the third step, the composition of the claim
  by \<open>pi\<close>.
\<close>

theorem rotation_matrix_zrot_counterexample:
  "rotation_matrix rotation_3d_spec
      \<lparr>name = ''rib'', profile_2d_data = None, glide = 1, aoa = (0, False), arcang = 0,
       zrot = pi, pos = None, chord = 1\<rparr>
     = Inr ((1, 0, 0), (0, 0, 1), (0, - 1, 0))
   \<and> three_rotations rotation_3d_spec (pi / 2 - 0) 0 pi = ((- 1, 0, 0), (0, 0, - 1), (0, - 1, 0))
   \<and> rotation_matrix rotation_3d_spec
      \<lparr>name = ''rib'', profile_2d_data = None, glide = 1, aoa = (0, False), arcang = 0,
       zrot = pi, pos = None, chord = 1\<rparr>
     \<noteq> Inr (three_rotations rotation_3d_spec (pi / 2 - 0) 0 pi)"
  by (simp add: rotation_matrix_def aoa_absolute_def rotation_rib_def three_rotations_def
      rotation_3d_spec_def mat_vec_def mat_mat_def dot3_def column_def Let_def)

text \<open>
  C2, amended. For a rib with \<open>glide \<noteq> 0\<close>, \<open>rotation_matrix\<close> is the composition
  of (a) the rotation by \<open>pi/2 - arcang\<close> about the spanwise axis, (b) the rotation by
  \<open>aoa_absolute\<close> about the vertical axis transformed through (a), and (c) the rotation
  by \<open>arctan(arcang) / glide * zrot\<close> about the chordwise axis transformed through the
  accumulated rotation of (a) and (b).
\<close>

theorem rotation_matrix_composition:
  assumes "glide self \<noteq> 0"
  shows "\<exists>a. aoa_absolute self = Inr a
           \<and> rotation_matrix rot3 self =
               Inr (three_rotations rot3 (pi / 2 - arcang self) a
                      (arctan (arcang self) / glide self * zrot self))"
proof -
  obtain a where a: "aoa_absolute self = Inr a"
    using assms by (cases "snd (aoa self)") (simp_all add: aoa_absolute_def aoa_diff_def)
  have "rotation_rib rot3 a (arcang self) z = three_rotations rot3 (pi / 2 - arcang self) a z" for z
    by (simp add: rotation_rib_def three_rotations_def Let_def)
  with a assms show ?thesis by (simp add: rotation_matrix_def)
qed

theorem rotation_matrix_composition_witness:
  "glide \<lparr>name = ''rib'', profile_2d_data = None, glide = 2, aoa = (pi / 2, False), arcang = 0,
       zrot = pi, pos = None, chord = 1\<rparr> \<noteq> 0
   \<and> rotation_matrix rotation_3d_spec
      \<lparr>name = ''rib'', profile_2d_data = None, glide = 2, aoa = (pi / 2, False), arcang = 0,
       zrot = pi, pos = None, chord = 1\<rparr>
     = Inr ((0, - 1, 0), (0, 0, 1), (- 1, 0, 0))"
proof -
  let ?rib = "\<lparr>name = ''rib'', profile_2d_data = None, glide = 2, aoa = (pi / 2, False),
      arcang = 0, zrot = pi, pos = None, chord = 1\<rparr>"
  have g: "glide ?rib \<noteq> 0" by simp
  have a: "aoa_absolute ?rib = Inr (pi / 2)" by (simp add: aoa_absolute_def)
  from rotation_matrix_composition [OF g, of rotation_3d_spec]
  obtain b where b: "aoa_absolute ?rib = Inr b"
    and r: "rotation_matrix rotation_3d_spec ?rib =
      Inr (three_rotations rotation_3d_spec (pi / 2 - arcang ?rib) b
             (arctan (arcang ?rib) / glide ?rib * zrot ?rib))"
    by blast
  from a b have "b = pi / 2" by simp
  with r have "rotation_matrix rotation_3d_spec ?rib =
      Inr (three_rotations rotation_3d_spec (pi / 2 - arcang ?rib) (pi / 2)
             (arctan (arcang ?rib) / glide ?rib * zrot ?rib))"
    by simp
  then have "rotation_matrix rotation_3d_spec ?rib = Inr ((0, - 1, 0), (0, 0, 1), (- 1, 0, 0))"
    by (simp add: three_rotations_def rotation_3d_spec_def mat_vec_def mat_mat_def dot3_def
        column_def Let_def)
  with g show ?thesis by simp
qed

section \<open>The 3D profile of a rib\<close>

text \<open>The rotation matrix is a function of the attributes its cache is keyed on.\<close>

lemma rotation_matrix_key:
  assumes "arcang a = arcang b" and "glide a = glide b" and "zrot a = zrot b" and "aoa a = aoa b"
  shows "rotation_matrix rot3 a = rotation_matrix rot3 b"
  unfolding rotation_matrix_def aoa_absolute_def assms by (rule refl)









text \<open>A read leaves the attributes as they are.\<close>

lemma read_profile_3d_attrs [simp]: "attrs (snd (read_profile_3d key rot3 obj)) = attrs obj"
  by (simp add: read_profile_3d_def compute_profile_3d_def split: option.splits sum.splits)

text \<open>
  A key made of the attributes of \<open>hashlist\<close> alone does not determine the value of
  \<open>profile_3d\<close>: the 2D profile and the name are not among them.
\<close>

lemma hashlist_key_leaves_out_profile:
  "hashlist_key (Rib_init None None 1 0 0 0 1 ''unnamed rib'' False)
     = hashlist_key (Rib_init (Some []) None 1 0 0 0 1 ''unnamed rib'' False)
   \<and> profile_3d rot3 (Rib_init None None 1 0 0 0 1 ''unnamed rib'' False)
     \<noteq> profile_3d rot3 (Rib_init (Some []) None 1 0 0 0 1 ''unnamed rib'' False)"
  by (simp add: hashlist_key_def Rib_init_def set_aoa_relative_def aoa_absolute_def
      aoa_diff_def profile_3d_def)





section \<open>Resampling from the root\<close>

lemma SetProfile_Inr:
  assumes "SetProfile self profile = Inr p"
  obtains i where "nose_scan profile 0 = Inr i" and "p = self\<lparr>data := profile, noseindex := i\<rparr>"
  using assms by (auto simp: SetProfile_def split: sum.splits)

lemma SetProfile_same:
  "SetProfile (self\<lparr>data := d, noseindex := i\<rparr>) profile = SetProfile self profile"
  by (simp add: SetProfile_def split: sum.splits)

lemma Points_length:
  assumes "Points pt self xs = Inr pts"
  shows "length pts = length xs"
  using assms unfolding Points_def by (rule comprehension_length)

lemma SetXValues_Inr:
  assumes "SetXValues pt self xval = Inr p"
  obtains pts i where "Points pt (rootprof self) xval = Inr pts" and "nose_scan pts 0 = Inr i"
    and "p = self\<lparr>data := pts, noseindex := i\<rparr>"
proof -
  from assms obtain pts where pts: "Points pt (rootprof self) xval = Inr pts"
    and sp: "SetProfile self pts = Inr p"
    by (auto simp: SetXValues_def split: sum.splits if_splits)
  from sp obtain i where "nose_scan pts 0 = Inr i" "p = self\<lparr>data := pts, noseindex := i\<rparr>"
    by (rule SetProfile_Inr)
  with pts that show thesis by blast
qed

lemma SetProfile_same_data:
  "SetProfile (self\<lparr>data := d\<rparr>) profile = SetProfile self profile"
  by (simp add: SetProfile_def split: sum.splits)

lemma SetXValues_after_cases:
  "SetXValues_after pt P D = P
   \<or> (\<exists>pts. Points pt (rootprof P) D = Inr pts \<and> SetXValues_after pt P D = P\<lparr>data := pts\<rparr>)
   \<or> (\<exists>pts i. Points pt (rootprof P) D = Inr pts \<and> nose_scan pts 0 = Inr i
         \<and> SetXValues_after pt P D = P\<lparr>data := pts, noseindex := i\<rparr>)"
  by (auto simp: SetXValues_after_def SetProfile_after_def split: sum.splits if_splits)

text \<open>
  C1. Whatever the profile \<open>P\<close> and the distributions \<open>D1\<close> and \<open>D2\<close>: assigning
  \<open>XValues = D2\<close> to the object as the assignment \<open>XValues = D1\<close> has left it gives
  exactly what assigning \<open>XValues = D2\<close> to \<open>P\<close> itself (in its state before the first
  assignment) gives: the same object, or the same exception. The retained root is not
  changed by the setter, and the new data are the root's \<open>Points(D2)\<close>, whatever the
  current data.
\<close>

theorem SetXValues_from_root:
  "SetXValues pt (SetXValues_after pt P D1) D2 = SetXValues pt P D2
   \<and> rootprof (SetXValues_after pt P D1) = rootprof P
   \<and> (\<forall>P1. SetXValues pt P D1 = Inr P1 \<longrightarrow>
          SetXValues_after pt P D1 = P1 \<and> SetXValues pt P1 D2 = SetXValues pt P D2)
   \<and> (\<forall>P2. SetXValues pt (SetXValues_after pt P D1) D2 = Inr P2 \<longrightarrow>
          Points pt (rootprof P) D2 = Inr (data P2))"
proof -
  let ?A = "SetXValues_after pt P D1"
  from SetXValues_after_cases [of pt P D1]
  have root: "rootprof ?A = rootprof P" and sp: "SetProfile ?A x = SetProfile P x" for x
    by (auto simp: SetProfile_same SetProfile_same_data)
  have same: "SetXValues pt ?A D2 = SetXValues pt P D2"
    by (simp add: SetXValues_def root sp split: sum.splits if_splits)
  have ok: "?A = P1" if "SetXValues pt P D1 = Inr P1" for P1
    using that
    by (auto simp: SetXValues_def SetXValues_after_def SetProfile_def SetProfile_after_def
        split: sum.splits if_splits)
  have pts: "Points pt (rootprof P) D2 = Inr (data P2)" if "SetXValues pt ?A D2 = Inr P2" for P2
  proof -
    from that same have "SetXValues pt P D2 = Inr P2" by simp
    then obtain q j where "Points pt (rootprof P) D2 = Inr q" "P2 = P\<lparr>data := q, noseindex := j\<rparr>"
      by (rule SetXValues_Inr)
    then show ?thesis by simp
  qed
  from root same ok pts show ?thesis by metis
qed

lemmas eval_Point_spec =
  SetXValues_def Points_def Point_def Point_spec_def interpolate_def SetProfile_def nose_scan.simps

theorem SetXValues_from_root_witness:
  "SetXValues Point_spec
      \<lparr>data = [(1, 0), (1/2, 1/10), (0, 0), (1/2, - 1/10), (1, 0)], noseindex = 2,
       Name = ''Profile'',
       rootprof = \<lparr>data = [(1, 0), (1/2, 1/10), (0, 0), (1/2, - 1/10), (1, 0)], noseindex = 2\<rparr>\<rparr>
      [- 1, 0, 1]
     = Inr \<lparr>data = [(1, 0), (0, 0), (1, 0)], noseindex = 1, Name = ''Profile'',
            rootprof = \<lparr>data = [(1, 0), (1/2, 1/10), (0, 0), (1/2, - 1/10), (1, 0)], noseindex = 2\<rparr>\<rparr>
   \<and> SetXValues Point_spec
      \<lparr>data = [(1, 0), (0, 0), (1, 0)], noseindex = 1, Name = ''Profile'',
       rootprof = \<lparr>data = [(1, 0), (1/2, 1/10), (0, 0), (1/2, - 1/10), (1, 0)], noseindex = 2\<rparr>\<rparr>
      [- 1, - 1/2, - 1/4, 0, 1/4, 1/2, 1]
     = Inr \<lparr>data = [(1, 0), (1/2, 1/10), (1/4, 1/20), (0, 0), (1/4, - 1/20), (1/2, - 1/10), (1, 0)],
            noseindex = 3, Name = ''Profile'',
            rootprof = \<lparr>data = [(1, 0), (1/2, 1/10), (0, 0), (1/2, - 1/10), (1, 0)], noseindex = 2\<rparr>\<rparr>
   \<and> SetXValues Point_spec
      \<lparr>data = [(1, 0), (1/2, 1/10), (0, 0), (1/2, - 1/10), (1, 0)], noseindex = 2,
       Name = ''Profile'',
       rootprof = \<lparr>data = [(1, 0), (1/2, 1/10), (0, 0), (1/2, - 1/10), (1, 0)], noseindex = 2\<rparr>\<rparr>
      [- 1, - 1/2]
     = Inl IndexError
   \<and> SetXValues Point_spec
      \<lparr>data = [(1, 0), (1/2, 1/10)], noseindex = 2, Name = ''Profile'',
       rootprof = \<lparr>data = [(1, 0), (1/2, 1/10), (0, 0), (1/2, - 1/10), (1, 0)], noseindex = 2\<rparr>\<rparr>
      [- 1, - 1/2, - 1/4, 0, 1/4, 1/2, 1]
     = Inr \<lparr>data = [(1, 0), (1/2, 1/10), (1/4, 1/20), (0, 0), (1/4, - 1/20), (1/2, - 1/10), (1, 0)],
            noseindex = 3, Name = ''Profile'',
            rootprof = \<lparr>data = [(1, 0), (1/2, 1/10), (0, 0), (1/2, - 1/10), (1, 0)], noseindex = 2\<rparr>\<rparr>"
proof -
  let ?root = "\<lparr>data = [(1, 0), (1/2, 1/10), (0, 0), (1/2, - 1/10), (1, 0)], noseindex = 2\<rparr>"
  let ?P = "\<lparr>data = [(1, 0), (1/2, 1/10), (0, 0), (1/2, - 1/10), (1, 0)], noseindex = 2,
       Name = ''Profile'', rootprof = ?root\<rparr>"
  let ?P1 = "\<lparr>data = [(1, 0), (0, 0), (1, 0)], noseindex = 1, Name = ''Profile'',
       rootprof = ?root\<rparr>"
  let ?B = "\<lparr>data = [(1, 0), (1/2, 1/10)], noseindex = 2, Name = ''Profile'', rootprof = ?root\<rparr>"
  let ?D2 = "[- 1, - 1/2, - 1/4, 0, 1/4, 1/2, 1] :: real list"
  have first: "SetXValues Point_spec ?P [- 1, 0, 1] = Inr ?P1"
    by (simp add: eval_Point_spec)
  have raised: "SetXValues Point_spec ?P [- 1, - 1/2] = Inl IndexError"
    by (simp add: eval_Point_spec)
  have left: "SetXValues_after Point_spec ?P [- 1, - 1/2] = ?B"
    by (simp add: SetXValues_after_def SetProfile_after_def eval_Point_spec)
  have direct: "SetXValues Point_spec ?P ?D2 =
      Inr \<lparr>data = [(1, 0), (1/2, 1/10), (1/4, 1/20), (0, 0), (1/4, - 1/20), (1/2, - 1/10), (1, 0)],
            noseindex = 3, Name = ''Profile'', rootprof = ?root\<rparr>"
    by (simp add: eval_Point_spec)
  from SetXValues_from_root [of Point_spec ?P "[- 1, 0, 1]" ?D2] first
  have a: "SetXValues Point_spec ?P1 ?D2 = SetXValues Point_spec ?P ?D2" by blast
  from SetXValues_from_root [of Point_spec ?P "[- 1, - 1/2]" ?D2] left
  have b: "SetXValues Point_spec ?B ?D2 = SetXValues Point_spec ?P ?D2" by simp
  from first raised a b direct show ?thesis by simp
qed

section \<open>The cosine distribution of \<open>Numpoints\<close>\<close>

lemma cosine_xvalues_length: "length (cosine_xvalues i) = nat (i + 1)"
  by (simp add: cosine_xvalues_def)

lemma cosine_xvalues_nth:
  assumes "0 \<le> j" and "j \<le> i"
  shows "cosine_xvalues i ! nat j = xtemp (real_of_int j / real_of_int i)"
proof -
  from assms have "nat j < length [0..i]" by simp
  moreover from assms have "[0..i] ! nat j = j" by (simp add: nth_upto)
  ultimately show ?thesis by (simp add: cosine_xvalues_def)
qed

lemma xtemp_mirror: "xtemp (1 - t) = - xtemp t"
proof -
  have "sin (pi * (1 - t)) = sin (pi * t)"
    by (simp add: right_diff_distrib)
  moreover have "cmp (1 - t) (1 / 2) = - cmp t (1 / 2)"
    by (auto simp: cmp_def)
  ultimately show ?thesis by (simp add: xtemp_def)
qed

lemma xtemp_bounded:
  assumes "0 \<le> t" and "t \<le> 1"
  shows "\<bar>xtemp t\<bar> \<le> 1"
proof -
  from assms have "0 \<le> pi * t" "pi * t \<le> pi"
    by (simp_all add: mult_left_le)
  then have "0 \<le> sin (pi * t)" by (rule sin_ge_zero)
  moreover have "sin (pi * t) \<le> 1" by simp
  ultimately have "\<bar>1 - sin (pi * t)\<bar> \<le> 1" by simp
  moreover have "\<bar>cmp t (1 / 2)\<bar> \<le> 1" by (simp add: cmp_def)
  ultimately have "\<bar>cmp t (1 / 2)\<bar> * \<bar>1 - sin (pi * t)\<bar> \<le> 1 * 1"
    by (intro mult_mono) simp_all
  then show ?thesis by (simp add: xtemp_def abs_mult)
qed

text \<open>
  C6, amended. For \<open>n \<ge> 2\<close>, assigning \<open>Numpoints = n\<close> rounds \<open>n\<close> down to the even
  number \<open>i\<close> and assigns to \<open>XValues\<close> the \<open>i + 1\<close> values
  \<open>cmp(t, 0.5) * (1 - sin(pi * t))\<close> at \<open>t = j / i\<close>, \<open>j = 0, ..., i\<close>; the value at
  \<open>i - j\<close> is the negative of the value at \<open>j\<close> (symmetric about the middle sample);
  when the setter returns, the curve has \<open>i + 1\<close> points, the root's points at these
  values: \<open>n\<close> points for odd \<open>n\<close>, \<open>n + 1\<close> for even \<open>n\<close>.
\<close>

theorem SetLen_cosine:
  assumes "2 \<le> num"
  shows "even (num - num mod 2) \<and> (num - num mod 2 = num \<or> num - num mod 2 = num - 1)
       \<and> SetLen pt P num = SetXValues pt P (cosine_xvalues (num - num mod 2))
       \<and> length (cosine_xvalues (num - num mod 2)) = nat (num - num mod 2 + 1)
       \<and> (\<forall>j. 0 \<le> j \<and> j \<le> num - num mod 2 \<longrightarrow>
             cosine_xvalues (num - num mod 2) ! nat j =
               cmp (real_of_int j / real_of_int (num - num mod 2)) (1 / 2)
                 * (1 - sin (pi * (real_of_int j / real_of_int (num - num mod 2)))))
       \<and> (\<forall>j. 0 \<le> j \<and> j \<le> num - num mod 2 \<longrightarrow>
             cosine_xvalues (num - num mod 2) ! nat (num - num mod 2 - j) =
               - (cosine_xvalues (num - num mod 2) ! nat j))
       \<and> (\<forall>P'. SetLen pt P num = Inr P' \<longrightarrow>
             GetLen P' = nat (num - num mod 2 + 1)
           \<and> Points pt (rootprof P) (cosine_xvalues (num - num mod 2)) = Inr (data P'))"
proof -
  define i where "i = num - num mod 2"
  have ev: "even i" unfolding i_def by presburger
  have rd: "i = num \<or> i = num - 1" unfolding i_def by presburger
  from assms have ipos: "0 < i" unfolding i_def by presburger
  then have set: "SetLen pt P num = SetXValues pt P (cosine_xvalues i)"
    by (simp add: SetLen_def Let_def i_def)
  have nth: "cosine_xvalues i ! nat j =
      cmp (real_of_int j / real_of_int i) (1 / 2) * (1 - sin (pi * (real_of_int j / real_of_int i)))"
    if "0 \<le> j \<and> j \<le> i" for j
    using that by (simp add: cosine_xvalues_nth xtemp_def)
  have mirror: "cosine_xvalues i ! nat (i - j) = - (cosine_xvalues i ! nat j)"
    if "0 \<le> j \<and> j \<le> i" for j
  proof -
    from that ipos have "real_of_int (i - j) / real_of_int i = 1 - real_of_int j / real_of_int i"
      by (simp add: diff_divide_distrib)
    with that show ?thesis
      by (simp add: cosine_xvalues_nth xtemp_mirror)
  qed
  have res: "GetLen P' = nat (i + 1) \<and> Points pt (rootprof P) (cosine_xvalues i) = Inr (data P')"
    if "SetLen pt P num = Inr P'" for P'
  proof -
    from that set have "SetXValues pt P (cosine_xvalues i) = Inr P'" by simp
    then obtain pts k where pts: "Points pt (rootprof P) (cosine_xvalues i) = Inr pts"
      and p': "P' = P\<lparr>data := pts, noseindex := k\<rparr>"
      by (rule SetXValues_Inr)
    from Points_length [OF pts] have "length pts = nat (i + 1)"
      by (simp add: cosine_xvalues_length)
    with pts p' show ?thesis by (simp add: GetLen_def)
  qed
  from ev rd set nth mirror res show ?thesis
    unfolding i_def [symmetric] by (simp add: cosine_xvalues_length)
qed

lemma cosine_xvalues_bounded:
  assumes "0 < i" and "x \<in> set (cosine_xvalues i)"
  shows "\<bar>x\<bar> \<le> 1"
proof -
  from assms(2) obtain j where j: "0 \<le> j" "j \<le> i" and x: "x = xtemp (real_of_int j * 1 / real_of_int i)"
    by (auto simp: cosine_xvalues_def)
  from j assms(1) have "0 \<le> real_of_int j / real_of_int i" "real_of_int j / real_of_int i \<le> 1"
    by simp_all
  then have "\<bar>xtemp (real_of_int j / real_of_int i)\<bar> \<le> 1" by (rule xtemp_bounded)
  with x show ?thesis by simp
qed

text \<open>On the flat profile \<open>(1, 0), (0, 0), (1, 0)\<close> the lookup returns \<open>(|x|, 0)\<close>.\<close>

lemma Point_spec_flat:
  assumes "\<bar>x\<bar> \<le> 1"
  shows "Point_spec [(1, 0), (0, 0), (1, 0)] x (- 1) = Inr (\<bar>x\<bar>, 0)"
proof -
  have "nose_scan [(1, 0), (0, 0), (1, 0)] 0 = Inr 1" by (simp add: nose_scan.simps)
  with assms show ?thesis by (auto simp: Point_spec_def interpolate_def Let_def)
qed

lemma Points_flat:
  assumes "\<forall>x \<in> set xs. \<bar>x\<bar> \<le> 1"
  shows "Points Point_spec \<lparr>data = [(1, 0), (0, 0), (1, 0)], noseindex = 1\<rparr> xs =
    Inr (map (\<lambda>x. (\<bar>x\<bar>, 0)) xs)"
proof -
  have "\<forall>x \<in> set xs. Point Point_spec \<lparr>data = [(1, 0), (0, 0), (1, 0)], noseindex = 1\<rparr> x (- 1) =
      Inr (\<bar>x\<bar>, 0)"
    using assms by (simp add: Point_def Point_spec_flat)
  then show ?thesis unfolding Points_def by (rule comprehension_map)
qed

lemma SetProfile_returns:
  assumes "k + 1 < length profile" and "fst (profile ! k) \<le> fst (profile ! (k + 1))"
  shows "\<exists>i. SetProfile self profile = Inr (self\<lparr>data := profile, noseindex := i\<rparr>)"
proof -
  from assms have "\<exists>i. i + 1 < length profile \<and> fst (profile ! i) \<le> fst (profile ! (i + 1))"
    by blast
  from nose_scan_least [OF this] obtain i where "nose_scan profile 0 = Inr i" by blast
  then have "SetProfile self profile = Inr (self\<lparr>data := profile, noseindex := i\<rparr>)"
    by (simp add: SetProfile_def)
  then show ?thesis by blast
qed

lemma flat_profile_built:
  "Profile2D_init None [(1, 0), (0, 0), (1, 0)] ''Profile''
     = Inr \<lparr>data = [(1, 0), (0, 0), (1, 0)], noseindex = 1, Name = ''Profile'',
            rootprof = \<lparr>data = [(1, 0), (0, 0), (1, 0)], noseindex = 1\<rparr>\<rparr>"
proof -
  have s: "nose_scan [(1, 0), (0, 0), (1, 0)] 0 = Inr 1"
    by (simp add: nose_scan.simps)
  have l: "Normalize_loop (1, 0) [(1, 0), (0, 0), (1, 0)] (0, (0, 0)) = (1, (0, 0))"
    by (simp add: Vector_norm_def vsub_def)
  have "Normalize \<lparr>data = [(1, 0), (0, 0), (1, 0)], noseindex = 1\<rparr> =
      Inr \<lparr>data = [(1, 0), (0, 0), (1, 0)], noseindex = 1\<rparr>"
    by (rule Normalize_fixed [where rest = "[(0, 0), (1, 0)]"]) (simp_all add: l del: Normalize_loop.simps)
  with s show ?thesis
    by (simp add: Profile2D_init_def BasicProfile2D_init_def SetProfile_def)
qed

text \<open>
  C6 as stated fails: \<open>Numpoints = 20\<close> gives 21 points, not 20 or 19. The profile is
  the one the constructor builds from the points \<open>(1, 0), (0, 0), (1, 0)\<close>.
\<close>

theorem SetLen_20_counterexample:
  "Profile2D_init None [(1, 0), (0, 0), (1, 0)] ''Profile''
     = Inr \<lparr>data = [(1, 0), (0, 0), (1, 0)], noseindex = 1, Name = ''Profile'',
            rootprof = \<lparr>data = [(1, 0), (0, 0), (1, 0)], noseindex = 1\<rparr>\<rparr>
   \<and> map_sum id GetLen
        (SetLen Point_spec
           \<lparr>data = [(1, 0), (0, 0), (1, 0)], noseindex = 1, Name = ''Profile'',
            rootprof = \<lparr>data = [(1, 0), (0, 0), (1, 0)], noseindex = 1\<rparr>\<rparr> 20) = Inr 21"
proof -
  let ?root = "\<lparr>data = [(1, 0), (0, 0), (1, 0)], noseindex = 1\<rparr>"
  let ?P = "\<lparr>data = [(1, 0), (0, 0), (1, 0)], noseindex = 1, Name = ''Profile'', rootprof = ?root\<rparr>"
  let ?xs = "cosine_xvalues 20"
  let ?pts = "map (\<lambda>x. (\<bar>x\<bar>, 0 :: real)) ?xs"
  have len: "length ?xs = 21" by (simp add: cosine_xvalues_length)
  have "\<forall>x \<in> set ?xs. \<bar>x\<bar> \<le> 1" using cosine_xvalues_bounded [of 20] by simp
  then have pts: "Points Point_spec ?root ?xs = Inr ?pts" by (rule Points_flat)
  have mid: "?xs ! 10 = 0"
    using cosine_xvalues_nth [of 10 20] by (simp add: xtemp_def cmp_def)
  have "fst (?pts ! 10) \<le> fst (?pts ! (10 + 1))"
    using len mid by simp
  moreover have "10 + 1 < length ?pts" using len by simp
  ultimately obtain i where "SetProfile ?P ?pts = Inr (?P\<lparr>data := ?pts, noseindex := i\<rparr>)"
    using SetProfile_returns [of 10 ?pts ?P] by blast
  moreover have "?pts \<noteq> []" using len by auto
  ultimately have "SetLen Point_spec ?P 20 = Inr (?P\<lparr>data := ?pts, noseindex := i\<rparr>)"
    using pts by (simp add: SetLen_def SetXValues_def)
  then have "map_sum id GetLen (SetLen Point_spec ?P 20) = Inr 21"
    using len by (simp add: GetLen_def)
  with flat_profile_built show ?thesis by simp
qed

lemma cosine_xvalues_2: "cosine_xvalues 2 = [- 1, 0, 1]"
proof -
  have "[0..2::int] = [0, 1, 2]" by (simp add: upto.simps)
  then show ?thesis by (simp add: cosine_xvalues_def xtemp_def cmp_def)
qed

theorem SetLen_cosine_witness:
  "(2::int) \<le> 2
   \<and> cosine_xvalues (2 - 2 mod 2) = [- 1, 0, 1]
   \<and> SetLen Point_spec
        \<lparr>data = [(1, 0), (1/2, 1/10), (0, 0), (1/2, - 1/10), (1, 0)], noseindex = 2,
         Name = ''Profile'',
         rootprof = \<lparr>data = [(1, 0), (1/2, 1/10), (0, 0), (1/2, - 1/10), (1, 0)], noseindex = 2\<rparr>\<rparr> 2
     = Inr \<lparr>data = [(1, 0), (0, 0), (1, 0)], noseindex = 1, Name = ''Profile'',
            rootprof = \<lparr>data = [(1, 0), (1/2, 1/10), (0, 0), (1/2, - 1/10), (1, 0)], noseindex = 2\<rparr>\<rparr>"
proof -
  let ?P = "\<lparr>data = [(1, 0), (1/2, 1/10), (0, 0), (1/2, - 1/10), (1, 0)], noseindex = 2,
         Name = ''Profile'',
         rootprof = \<lparr>data = [(1, 0), (1/2, 1/10), (0, 0), (1/2, - 1/10), (1, 0)], noseindex = 2\<rparr>\<rparr>"
  have two: "(2::int) \<le> 2" by simp
  have set: "SetXValues Point_spec ?P [- 1, 0, 1] =
      Inr \<lparr>data = [(1, 0), (0, 0), (1, 0)], noseindex = 1, Name = ''Profile'',
            rootprof = \<lparr>data = [(1, 0), (1/2, 1/10), (0, 0), (1/2, - 1/10), (1, 0)], noseindex = 2\<rparr>\<rparr>"
    by (simp add: eval_Point_spec)
  from SetLen_cosine [OF two, of Point_spec ?P] have
    "SetLen Point_spec ?P 2 = SetXValues Point_spec ?P (cosine_xvalues (2 - 2 mod 2))"
    by blast
  with set cosine_xvalues_2 show ?thesis by simp
qed

section \<open>Addition of profiles\<close>

lemma comprehension_nth:
  assumes "comprehension f xs = Inr ys" and "k < length xs"
  shows "f (xs ! k) = Inr (ys ! k)"
  using assms
proof (induction xs arbitrary: ys k)
  case Nil
  then show ?case by simp
next
  case (Cons x xs)
  then show ?case by (cases k) (auto split: sum.splits)
qed

lemma GetXValues_length: "length (GetXValues self) = length (data self)"
  by (simp add: GetXValues_def Let_def)

lemma GetXValues_abs:
  assumes "k < length (data self)"
  shows "\<bar>GetXValues self ! k\<bar> = \<bar>fst (data self ! k)\<bar>"
proof -
  have "map abs (GetXValues self) =
      map (\<lambda>p. \<bar>fst p\<bar>) (take (noseindex self) (data self))
        @ map (\<lambda>p. \<bar>fst p\<bar>) (drop (noseindex self) (data self))"
    by (simp add: GetXValues_def Let_def comp_def)
  also have "\<dots> = map (\<lambda>p. \<bar>fst p\<bar>) (take (noseindex self) (data self) @ drop (noseindex self) (data self))"
    by (simp only: map_append)
  finally have "map abs (GetXValues self) = map (\<lambda>p. \<bar>fst p\<bar>) (data self)" by simp
  then have "map abs (GetXValues self) ! k = map (\<lambda>p. \<bar>fst p\<bar>) (data self) ! k" by simp
  with assms show ?thesis by (simp add: GetXValues_length)
qed

lemma add_rows_length: "length (add_rows a b) = min (length a) (length b)"
  by (simp add: add_rows_def)

lemma add_rows_nth:
  assumes "k < length a" and "k < length b"
  shows "add_rows a b ! k = (fst (a ! k), snd (a ! k) + snd (b ! k))"
  using assms by (simp add: add_rows_def)

text \<open>The copy made by the constructor: its data are its root's data.\<close>

lemma Profile2D_init_Inr:
  assumes "Profile2D_init header profile nm = Inr c"
  shows "data (rootprof c) = data c \<and> Name c = (case header of Some s \<Rightarrow> s | None \<Rightarrow> nm)
       \<and> (\<exists>root0. BasicProfile2D_init profile = Inr root0 \<and> Normalize root0 = Inr (rootprof c))"
proof -
  from assms obtain root0 rprof where r0: "BasicProfile2D_init profile = Inr root0"
    and n: "Normalize root0 = Inr rprof"
    and s: "SetProfile \<lparr>data = [], noseindex = 0,
              Name = (case header of Some s \<Rightarrow> s | None \<Rightarrow> nm), rootprof = rprof\<rparr> (data rprof) = Inr c"
    by (auto simp: Profile2D_init_def split: if_splits sum.splits)
  from s obtain i where "c = \<lparr>data = [], noseindex = 0,
              Name = (case header of Some s \<Rightarrow> s | None \<Rightarrow> nm), rootprof = rprof\<rparr>\<lparr>data := data rprof, noseindex := i\<rparr>"
    by (rule SetProfile_Inr)
  then have "data c = data rprof" "rootprof c = rprof" "Name c = (case header of Some s \<Rightarrow> s | None \<Rightarrow> nm)"
    by simp_all
  with r0 n show ?thesis by simp
qed

text \<open>
  What \<open>P + Q\<close> computes when it returns: the operand with fewer points (\<open>P\<close> when
  \<open>Q\<close> has no fewer) is copied by the constructor, which normalises the copied data and
  takes them as the copy's root; if the copy's signed x-values differ from the other
  operand's, the copy is resampled from its root onto the other operand's signed
  x-values; the result has as many points as the other operand, and its k-th point has
  the x of the copy's k-th point and the sum of the two k-th y: the other operand's x
  column contributes nothing. Where the point lookup returns a point at the requested
  \<open>|x|\<close>, the result's x-values are, up to sign, the other operand's.
\<close>

lemma add_resamples_copy:
  assumes "add pt P Q = Inr R"
  shows "\<exists>c first.
           copy (if GetLen P > GetLen Q then Q else P) = Inr c
         \<and> data (rootprof c) = data c
         \<and> (if GetXValues c \<noteq> GetXValues (if GetLen P > GetLen Q then P else Q)
             then SetXValues pt c (GetXValues (if GetLen P > GetLen Q then P else Q)) = Inr first
             else first = c)
         \<and> GetLen R = GetLen (if GetLen P > GetLen Q then P else Q)
         \<and> (\<forall>k < GetLen R.
               data R ! k = (fst (data first ! k),
                             snd (data first ! k)
                               + snd (data (if GetLen P > GetLen Q then P else Q) ! k)))
         \<and> rootprof R = rootprof c
         \<and> ((\<forall>d x p. pt d x (- 1) = Inr p \<longrightarrow> fst p = \<bar>x\<bar>) \<longrightarrow>
              (\<forall>k < GetLen R.
                 \<bar>fst (data R ! k)\<bar> = \<bar>fst (data (if GetLen P > GetLen Q then P else Q) ! k)\<bar>))"
proof -
  define lo where "lo = (if GetLen P > GetLen Q then Q else P)"
  define hi where "hi = (if GetLen P > GetLen Q then P else Q)"
  have "add pt P Q =
      (case copy lo of
         Inl e \<Rightarrow> Inl e
       | Inr c \<Rightarrow>
           (case (if GetXValues c \<noteq> GetXValues hi
                  then SetXValues pt c (GetXValues hi) else Inr c) of
              Inl e \<Rightarrow> Inl e
            | Inr first \<Rightarrow> SetProfile first (add_rows (data first) (data hi))))"
    unfolding add_def lo_def hi_def Let_def by (rule refl)
  with assms obtain c first where c: "copy lo = Inr c"
    and f: "(if GetXValues c \<noteq> GetXValues hi then SetXValues pt c (GetXValues hi) else Inr c) = Inr first"
    and r: "SetProfile first (add_rows (data first) (data hi)) = Inr R"
    by (auto split: sum.splits)
  from c have root: "data (rootprof c) = data c"
    using Profile2D_init_Inr [of None "data lo" "''Profile''" c] by (simp add: copy_def)
  have f': "if GetXValues c \<noteq> GetXValues hi
      then SetXValues pt c (GetXValues hi) = Inr first else first = c"
    using f by (simp split: if_splits)
  have lenf: "length (data first) = length (data hi)"
  proof (cases "GetXValues c \<noteq> GetXValues hi")
    case True
    with f have "SetXValues pt c (GetXValues hi) = Inr first" by simp
    then obtain pts i where "Points pt (rootprof c) (GetXValues hi) = Inr pts"
      "first = c\<lparr>data := pts, noseindex := i\<rparr>" by (rule SetXValues_Inr)
    then show ?thesis using Points_length [of pt "rootprof c" "GetXValues hi" pts]
      by (simp add: GetXValues_length)
  next
    case False
    with f have "first = c" "GetXValues c = GetXValues hi" by simp_all
    then show ?thesis by (metis GetXValues_length)
  qed
  have rootf: "rootprof first = rootprof c"
  proof (cases "GetXValues c \<noteq> GetXValues hi")
    case True
    with f have "SetXValues pt c (GetXValues hi) = Inr first" by simp
    then obtain pts i where "first = c\<lparr>data := pts, noseindex := i\<rparr>" by (rule SetXValues_Inr)
    then show ?thesis by simp
  next
    case False
    with f show ?thesis by simp
  qed
  from r obtain i where R: "R = first\<lparr>data := add_rows (data first) (data hi), noseindex := i\<rparr>"
    by (rule SetProfile_Inr)
  then have dataR: "data R = add_rows (data first) (data hi)" by simp
  from R rootf have rootR: "rootprof R = rootprof c" by simp
  from dataR lenf have lenR: "GetLen R = GetLen hi"
    by (simp add: GetLen_def add_rows_length)
  have rows: "data R ! k = (fst (data first ! k), snd (data first ! k) + snd (data hi ! k))"
    if "k < GetLen R" for k
    using that lenR lenf dataR by (simp add: GetLen_def add_rows_nth)
  have xs: "\<bar>fst (data R ! k)\<bar> = \<bar>fst (data hi ! k)\<bar>"
    if pt: "\<forall>d x p. pt d x (- 1) = Inr p \<longrightarrow> fst p = \<bar>x\<bar>" and k: "k < GetLen R" for k
  proof -
    from k lenR have kh: "k < length (data hi)" by (simp add: GetLen_def)
    have "\<bar>fst (data first ! k)\<bar> = \<bar>fst (data hi ! k)\<bar>"
    proof (cases "GetXValues c \<noteq> GetXValues hi")
      case True
      with f have "SetXValues pt c (GetXValues hi) = Inr first" by simp
      then obtain pts j where pts: "Points pt (rootprof c) (GetXValues hi) = Inr pts"
        and "first = c\<lparr>data := pts, noseindex := j\<rparr>" by (rule SetXValues_Inr)
      then have df: "data first = pts" by simp
      from pts kh have "pt (data (rootprof c)) (GetXValues hi ! k) (- 1) = Inr (pts ! k)"
        using comprehension_nth [of "\<lambda>x. Point pt (rootprof c) x (- 1)" "GetXValues hi" pts k]
        by (simp add: Points_def Point_def GetXValues_length)
      with pt have "fst (pts ! k) = \<bar>GetXValues hi ! k\<bar>" by blast
      with df kh show ?thesis by (simp add: GetXValues_abs)
    next
      case False
      with f have fc: "first = c" and eq: "GetXValues c = GetXValues hi" by simp_all
      from kh lenf fc have "k < length (data c)" by simp
      then have "\<bar>GetXValues c ! k\<bar> = \<bar>fst (data c ! k)\<bar>" by (rule GetXValues_abs)
      moreover from kh have "\<bar>GetXValues hi ! k\<bar> = \<bar>fst (data hi ! k)\<bar>" by (rule GetXValues_abs)
      ultimately show ?thesis using eq fc by simp
    qed
    with rows [OF k] show ?thesis by simp
  qed
  from c root f' lenR rows rootR xs show ?thesis
    unfolding lo_def hi_def by blast
qed

text \<open>
  Where the constructor's normalisation leaves the points of the operand with fewer
  points as they are, the sum is the one of the operands themselves: the k-th y of the
  result is the y of that operand, as stored or as looked up in its points at the other
  operand's k-th signed x-value, plus the k-th y of the other operand.
\<close>

lemma add_is_sum_in_normal_form:
  assumes a: "add pt P Q = Inr R"
    and nf: "map_sum id data
               (Normalize \<lparr>data = data (if GetLen P > GetLen Q then Q else P), noseindex = 0\<rparr>)
             = Inr (data (if GetLen P > GetLen Q then Q else P))"
  shows "GetLen R = GetLen (if GetLen P > GetLen Q then P else Q)
       \<and> (\<exists>pts. (pts = data (if GetLen P > GetLen Q then Q else P)
                  \<or> Points pt (if GetLen P > GetLen Q then Q else P)
                       (GetXValues (if GetLen P > GetLen Q then P else Q)) = Inr pts)
                \<and> (\<forall>k < GetLen R.
                      data R ! k = (fst (pts ! k),
                                    snd (pts ! k)
                                      + snd (data (if GetLen P > GetLen Q then P else Q) ! k))))"
proof -
  define lo where "lo = (if GetLen P > GetLen Q then Q else P)"
  define hi where "hi = (if GetLen P > GetLen Q then P else Q)"
  from add_resamples_copy [OF a] obtain c first where c: "copy lo = Inr c"
    and root: "data (rootprof c) = data c"
    and f: "if GetXValues c \<noteq> GetXValues hi
            then SetXValues pt c (GetXValues hi) = Inr first else first = c"
    and len: "GetLen R = GetLen hi"
    and rows: "\<forall>k < GetLen R.
        data R ! k = (fst (data first ! k), snd (data first ! k) + snd (data hi ! k))"
    unfolding lo_def hi_def by blast
  from c obtain root0 where r0: "BasicProfile2D_init (data lo) = Inr root0"
    and n: "Normalize root0 = Inr (rootprof c)"
    using Profile2D_init_Inr [of None "data lo" "''Profile''" c] by (auto simp: copy_def)
  from r0 obtain i where "root0 = \<lparr>data = [], noseindex = 0\<rparr>\<lparr>data := data lo, noseindex := i\<rparr>"
    unfolding BasicProfile2D_init_def by (rule SetProfile_Inr)
  then have "data root0 = data lo" by simp
  with Normalize_data [of root0] n nf have "data (rootprof c) = data lo"
    by (simp add: lo_def)
  with root have same: "data c = data lo" and sroot: "data (rootprof c) = data lo" by simp_all
  have "\<exists>pts. (pts = data lo \<or> Points pt lo (GetXValues hi) = Inr pts) \<and> data first = pts"
  proof (cases "GetXValues c \<noteq> GetXValues hi")
    case True
    with f have "SetXValues pt c (GetXValues hi) = Inr first" by simp
    then obtain pts j where pts: "Points pt (rootprof c) (GetXValues hi) = Inr pts"
      and "first = c\<lparr>data := pts, noseindex := j\<rparr>" by (rule SetXValues_Inr)
    then have "data first = pts" by simp
    moreover from pts sroot have "Points pt lo (GetXValues hi) = Inr pts"
      by (simp add: Points_def Point_def)
    ultimately show ?thesis by blast
  next
    case False
    with f same show ?thesis by simp
  qed
  with len rows show ?thesis unfolding lo_def hi_def by blast
qed

text \<open>A profile resampled to three points, added to itself.\<close>

lemma thin_norms:
  "Vector_norm (vsub (2/5, 3/10) (2/5, 3/10)) = 0"
  "Vector_norm (vsub (0, 0) (2/5, 3/10)) = 1 / 2"
  "Vector_norm (vsub (2/5, - (1/10)) (2/5, 3/10)) = 2 / 5"
proof -
  show "Vector_norm (vsub (2/5, 3/10) (2/5, 3/10)) = 0"
    by (simp add: Vector_norm_def vsub_def)
  show "Vector_norm (vsub (0, 0) (2/5, 3/10)) = 1 / 2"
    unfolding Vector_norm_def vsub_def fst_conv snd_conv
    by (rule real_sqrt_unique) (simp_all add: power2_eq_square)
  show "Vector_norm (vsub (2/5, - (1/10)) (2/5, 3/10)) = 2 / 5"
    unfolding Vector_norm_def vsub_def fst_conv snd_conv
    by (rule real_sqrt_unique) (simp_all add: power2_eq_square)
qed

lemma thin_loop:
  "Normalize_loop (2/5, 3/10) [(2/5, 3/10), (0, 0), (2/5, - (1/10))] (0, (0, 0)) = (1 / 2, (0, 0))"
  by (simp add: thin_norms Let_def)

lemma thin_matrix:
  "Normalize_matrix (2/5, 3/10) (0, 0) (1 / 2) = ((8/5, 6/5), (- 6/5, 8/5))"
  using Normalize_matrix_eq [of "(0, 0)" "(2/5, 3/10)" "1 / 2"] thin_norms(2)
  by (simp add: power2_eq_square)

lemma thin_copy:
  "copy \<lparr>data = [(2/5, 3/10), (0, 0), (2/5, - (1/10))], noseindex = 1, Name = ''Profile'',
         rootprof = \<lparr>data = [(1, 0), (2/5, 3/10), (0, 0), (2/5, - (1/10)), (1, 0)], noseindex = 2\<rparr>\<rparr>
     = Inr \<lparr>data = [(1, 0), (0, 0), (13/25, - (16/25))], noseindex = 1, Name = ''Profile'',
            rootprof = \<lparr>data = [(1, 0), (0, 0), (13/25, - (16/25))], noseindex = 1\<rparr>\<rparr>"
proof -
  have s: "nose_scan [(2/5, 3/10), (0, 0), (2/5, - (1/10))] 0 = Inr 1"
    by (simp add: nose_scan.simps)
  have n: "Normalize \<lparr>data = [(2/5, 3/10), (0, 0), (2/5, - (1/10))], noseindex = 1\<rparr> =
      Inr \<lparr>data = [(1, 0), (0, 0), (13/25, - (16/25))], noseindex = 1\<rparr>"
    by (simp add: Normalize_def thin_loop thin_matrix dot2_def vsub_def del: Normalize_loop.simps)
  have s': "nose_scan [(1, 0), (0, 0), (13/25, - (16/25))] 0 = Inr 1"
    by (simp add: nose_scan.simps)
  from s n s' show ?thesis
    by (simp add: copy_def Profile2D_init_def BasicProfile2D_init_def SetProfile_def)
qed

lemma thin_add:
  "add Point_spec
      \<lparr>data = [(2/5, 3/10), (0, 0), (2/5, - (1/10))], noseindex = 1, Name = ''Profile'',
       rootprof = \<lparr>data = [(1, 0), (2/5, 3/10), (0, 0), (2/5, - (1/10)), (1, 0)], noseindex = 2\<rparr>\<rparr>
      \<lparr>data = [(2/5, 3/10), (0, 0), (2/5, - (1/10))], noseindex = 1, Name = ''Profile'',
       rootprof = \<lparr>data = [(1, 0), (2/5, 3/10), (0, 0), (2/5, - (1/10)), (1, 0)], noseindex = 2\<rparr>\<rparr>
     = Inr \<lparr>data = [(2/5, 3/10), (0, 0), (2/5, - (77/130))], noseindex = 1, Name = ''Profile'',
            rootprof = \<lparr>data = [(1, 0), (0, 0), (13/25, - (16/25))], noseindex = 1\<rparr>\<rparr>"
proof -
  let ?P = "\<lparr>data = [(2/5, 3/10), (0, 0), (2/5, - (1/10))], noseindex = 1, Name = ''Profile'',
       rootprof = \<lparr>data = [(1, 0), (2/5, 3/10), (0, 0), (2/5, - (1/10)), (1, 0)], noseindex = 2\<rparr>\<rparr>"
  let ?c = "\<lparr>data = [(1, 0), (0, 0), (13/25, - (16/25))], noseindex = 1, Name = ''Profile'',
            rootprof = \<lparr>data = [(1, 0), (0, 0), (13/25, - (16/25))], noseindex = 1\<rparr>\<rparr>"
  let ?f = "\<lparr>data = [(2/5, 0), (0, 0), (2/5, - (32/65))], noseindex = 1, Name = ''Profile'',
            rootprof = \<lparr>data = [(1, 0), (0, 0), (13/25, - (16/25))], noseindex = 1\<rparr>\<rparr>"
  have c: "copy ?P = Inr ?c" by (rule thin_copy)
  have x: "GetXValues ?c \<noteq> GetXValues ?P" by (simp add: GetXValues_def)
  have s: "SetXValues Point_spec ?c (GetXValues ?P) = Inr ?f"
    by (simp add: GetXValues_def eval_Point_spec)
  have r: "SetProfile ?f (add_rows (data ?f) (data ?P)) =
      Inr \<lparr>data = [(2/5, 3/10), (0, 0), (2/5, - (77/130))], noseindex = 1, Name = ''Profile'',
            rootprof = \<lparr>data = [(1, 0), (0, 0), (13/25, - (16/25))], noseindex = 1\<rparr>\<rparr>"
    by (simp add: add_rows_def SetProfile_def nose_scan.simps)
  show ?thesis
    by (simp only: add_def Let_def GetLen_def less_irrefl if_False c sum.case x
        not_False_eq_True if_True s r)
qed

lemma interpolate_fst:
  assumes "fst p \<le> x \<and> x \<le> fst q \<or> fst q \<le> x \<and> x \<le> fst p"
  shows "fst (interpolate p q x) = x"
  using assms by (auto simp: interpolate_def Let_def)

lemma upper_point_fst: "upper_point d x = Inr p \<Longrightarrow> fst p = x"
proof (induction d x rule: upper_point.induct)
  case (1 p q rest x)
  then show ?case by (auto simp: interpolate_fst split: if_splits)
qed simp_all

lemma lower_point_fst: "lower_point d x = Inr p \<Longrightarrow> fst p = x"
proof (induction d x rule: lower_point.induct)
  case (1 p q rest x)
  then show ?case by (auto simp: interpolate_fst split: if_splits)
qed simp_all

text \<open>The lookup modelled from the spec returns a point at the requested \<open>|x|\<close>.\<close>

lemma Point_spec_fst: "Point_spec d x (- 1) = Inr p \<Longrightarrow> fst p = \<bar>x\<bar>"
  by (auto simp: Point_spec_def dest: upper_point_fst lower_point_fst
      split: if_splits sum.splits)

lemma thin_root_loop:
  "Normalize_loop (1, 0) [(1, 0), (2/5, 3/10), (0, 0), (2/5, - (1/10)), (1, 0)] (0, (0, 0)) = (1, (0, 0))"
  by (simp add: Vector_norm_def vsub_def power2_eq_square Let_def)

lemma thin_root_built:
  "Profile2D_init None [(1, 0), (2/5, 3/10), (0, 0), (2/5, - (1/10)), (1, 0)] ''Profile''
     = Inr \<lparr>data = [(1, 0), (2/5, 3/10), (0, 0), (2/5, - (1/10)), (1, 0)], noseindex = 2,
            Name = ''Profile'',
            rootprof = \<lparr>data = [(1, 0), (2/5, 3/10), (0, 0), (2/5, - (1/10)), (1, 0)], noseindex = 2\<rparr>\<rparr>"
proof -
  have s: "nose_scan [(1, 0), (2/5, 3/10), (0, 0), (2/5, - (1/10)), (1, 0)] 0 = Inr 2"
    by (simp add: nose_scan.simps)
  have "Normalize \<lparr>data = [(1, 0), (2/5, 3/10), (0, 0), (2/5, - (1/10)), (1, 0)], noseindex = 2\<rparr> =
      Inr \<lparr>data = [(1, 0), (2/5, 3/10), (0, 0), (2/5, - (1/10)), (1, 0)], noseindex = 2\<rparr>"
    by (rule Normalize_fixed [where rest = "[(2/5, 3/10), (0, 0), (2/5, - (1/10)), (1, 0)]"])
      (simp_all add: thin_root_loop del: Normalize_loop.simps)
  with s show ?thesis
    by (simp add: Profile2D_init_def BasicProfile2D_init_def SetProfile_def)
qed

lemma thin_resampled:
  "SetXValues Point_spec
      \<lparr>data = [(1, 0), (2/5, 3/10), (0, 0), (2/5, - (1/10)), (1, 0)], noseindex = 2,
       Name = ''Profile'',
       rootprof = \<lparr>data = [(1, 0), (2/5, 3/10), (0, 0), (2/5, - (1/10)), (1, 0)], noseindex = 2\<rparr>\<rparr>
      [- (2/5), 0, 2/5]
     = Inr \<lparr>data = [(2/5, 3/10), (0, 0), (2/5, - (1/10))], noseindex = 1, Name = ''Profile'',
            rootprof = \<lparr>data = [(1, 0), (2/5, 3/10), (0, 0), (2/5, - (1/10)), (1, 0)], noseindex = 2\<rparr>\<rparr>"
  by (simp add: eval_Point_spec)

text \<open>
  C7. The claim: \<open>P + Q\<close> resamples the operand with fewer points onto the other
  operand's x-values and adds the y, so that at each shared x the result's y is the sum
  of both operands' y. The code works on \<open>copy()\<close> of that operand, and the inherited
  \<open>copy()\<close> runs the constructor on the current data: the copy is normalised again and
  resampled from these data, not from the operand's retained root. The profile built from
  \<open>(1, 0), (2/5, 3/10), (0, 0), (2/5, -1/10), (1, 0)\<close> is resampled to the signed
  x-values \<open>-2/5, 0, 2/5\<close> and added to itself. Both operands have the y-values
  \<open>3/10, 0, -1/10\<close> at these x, and the sum is \<open>3/5, 0, -1/5\<close>; the result has
  \<open>3/10, 0, -77/130\<close>.
\<close>

theorem add_of_resampled_profile:
  "Profile2D_init None [(1, 0), (2/5, 3/10), (0, 0), (2/5, - (1/10)), (1, 0)] ''Profile''
     = Inr \<lparr>data = [(1, 0), (2/5, 3/10), (0, 0), (2/5, - (1/10)), (1, 0)], noseindex = 2,
            Name = ''Profile'',
            rootprof = \<lparr>data = [(1, 0), (2/5, 3/10), (0, 0), (2/5, - (1/10)), (1, 0)], noseindex = 2\<rparr>\<rparr>
   \<and> SetXValues Point_spec
      \<lparr>data = [(1, 0), (2/5, 3/10), (0, 0), (2/5, - (1/10)), (1, 0)], noseindex = 2,
       Name = ''Profile'',
       rootprof = \<lparr>data = [(1, 0), (2/5, 3/10), (0, 0), (2/5, - (1/10)), (1, 0)], noseindex = 2\<rparr>\<rparr>
      [- (2/5), 0, 2/5]
     = Inr \<lparr>data = [(2/5, 3/10), (0, 0), (2/5, - (1/10))], noseindex = 1, Name = ''Profile'',
            rootprof = \<lparr>data = [(1, 0), (2/5, 3/10), (0, 0), (2/5, - (1/10)), (1, 0)], noseindex = 2\<rparr>\<rparr>
   \<and> add Point_spec
      \<lparr>data = [(2/5, 3/10), (0, 0), (2/5, - (1/10))], noseindex = 1, Name = ''Profile'',
       rootprof = \<lparr>data = [(1, 0), (2/5, 3/10), (0, 0), (2/5, - (1/10)), (1, 0)], noseindex = 2\<rparr>\<rparr>
      \<lparr>data = [(2/5, 3/10), (0, 0), (2/5, - (1/10))], noseindex = 1, Name = ''Profile'',
       rootprof = \<lparr>data = [(1, 0), (2/5, 3/10), (0, 0), (2/5, - (1/10)), (1, 0)], noseindex = 2\<rparr>\<rparr>
     = Inr \<lparr>data = [(2/5, 3/10), (0, 0), (2/5, - (77/130))], noseindex = 1, Name = ''Profile'',
            rootprof = \<lparr>data = [(1, 0), (0, 0), (13/25, - (16/25))], noseindex = 1\<rparr>\<rparr>
   \<and> map snd ([(2/5, 3/10), (0, 0), (2/5, - (77/130))] :: point list)
       \<noteq> [3/10 + 3/10, 0 + 0, - (1/10) + - (1/10)]"
  using thin_root_built thin_resampled thin_add by simp

section \<open>The thickness setter\<close>

lemma GetXValues_abs_map: "map abs (GetXValues self) = map (\<lambda>p. \<bar>fst p\<bar>) (data self)"
proof -
  have "map abs (GetXValues self) =
      map (\<lambda>p. \<bar>fst p\<bar>) (take (noseindex self) (data self))
        @ map (\<lambda>p. \<bar>fst p\<bar>) (drop (noseindex self) (data self))"
    by (simp add: GetXValues_def Let_def comp_def)
  also have "\<dots> = map (\<lambda>p. \<bar>fst p\<bar>) (take (noseindex self) (data self) @ drop (noseindex self) (data self))"
    by (simp only: map_append)
  finally show ?thesis by simp
qed

lemma comprehension_image:
  assumes "comprehension g xs = Inr ys"
    and "\<forall>x \<in> set xs. \<forall>y. g x = Inr y \<longrightarrow> g' x = Inr (h y)"
  shows "comprehension g' xs = Inr (map h ys)"
  using assms
proof (induction xs arbitrary: ys)
  case Nil
  then show ?case by simp
next
  case (Cons x xs)
  then show ?case by (auto split: sum.splits)
qed

lemma times_row_fst: "map (\<lambda>p. \<bar>fst p\<bar>) (times_row d (1, f)) = map (\<lambda>p. \<bar>fst p\<bar>) d"
  by (simp add: times_row_def comp_def)

lemma Max_scaled:
  assumes "vs \<noteq> []" and "0 < f"
  shows "Max (set (map (\<lambda>v. v * f) vs)) = Max (set vs) * (f :: real)"
proof -
  have "mono (\<lambda>v. v * f)" using assms(2) by (simp add: mono_def)
  then have "(\<lambda>v. v * f) (Max (set vs)) = Max ((\<lambda>v. v * f) ` set vs)"
    using assms(1) by (intro mono_Max_commute) simp_all
  then show ?thesis by simp
qed

lemma interpolate_scale:
  "interpolate (fst p * 1, snd p * f) (fst q * 1, snd q * f) x =
     (fst (interpolate p q x), snd (interpolate p q x) * f)"
  by (simp add: interpolate_def Let_def algebra_simps)

lemma upper_point_scale:
  "upper_point d x = Inr r \<Longrightarrow> upper_point (times_row d (1, f)) x = Inr (fst r, snd r * f)"
proof (induction d x rule: upper_point.induct)
  case (1 p q rest x)
  then show ?case
    using interpolate_scale [of p f q x]
    by (auto simp: times_row_def split: if_splits)
qed simp_all

lemma lower_point_scale:
  "lower_point d x = Inr r \<Longrightarrow> lower_point (times_row d (1, f)) x = Inr (fst r, snd r * f)"
proof (induction d x rule: lower_point.induct)
  case (1 p q rest x)
  then show ?case
    using interpolate_scale [of p f q x]
    by (auto simp: times_row_def split: if_splits)
qed simp_all

text \<open>The lookup modelled from the spec commutes with a rescaling of y.\<close>

lemma nose_scan_scale: "nose_scan (times_row d (1, f)) i = nose_scan d i"
proof (induction d i rule: nose_scan.induct)
  case (1 profile i)
  show ?case
  proof (cases "length profile \<le> i + 1")
    case True
    then show ?thesis
      by (subst nose_scan.simps, subst (2) nose_scan.simps) (simp add: times_row_def)
  next
    case False
    with 1 show ?thesis
      by (subst nose_scan.simps, subst (2) nose_scan.simps) (simp add: times_row_def)
  qed
qed

lemma times_row_take: "take n (times_row d r) = times_row (take n d) r"
  by (simp add: times_row_def take_map)

lemma times_row_drop: "drop n (times_row d r) = times_row (drop n d) r"
  by (simp add: times_row_def drop_map)

lemma Point_spec_scale:
  "Point_spec d x h = Inr r \<Longrightarrow> Point_spec (times_row d (1, f)) x h = Inr (fst r, snd r * f)"
  by (auto simp: Point_spec_def nose_scan_scale times_row_take times_row_drop
        upper_point_scale lower_point_scale
      split: if_splits sum.splits)

text \<open>
  C5, amended. For a profile with a positive maximum thickness \<open>m\<close> and a new value
  \<open>t > 0\<close>: when assigning \<open>Thickness = t\<close> returns, the name is suffixed with
  \<open>_\<close>, the percentage and \<open>%\<close>; the whole data and the root are replaced by
  the points rescaled in y by \<open>t / m\<close> and normalised again by the constructor; if that
  normalisation leaves the rescaled points as they are, and the point lookup commutes
  with the rescaling, the maximum of the thickness read back is \<open>t\<close>.
\<close>

theorem SetThick_rescales:
  assumes th: "GetThick pt P = Inr thick"
    and ne: "thick \<noteq> []"
    and pos: "0 < max_thickness thick"
    and t: "0 < t"
    and res: "SetThick pt str_float P t = Inr P'"
  shows "Name P' = Name P @ ''_'' @ str_float (t * 100) @ ''%''
       \<and> data (rootprof P') = data P'
       \<and> map_sum id data
            (Normalize \<lparr>data = times_row (data P) (1, t / max_thickness thick), noseindex = 0\<rparr>)
           = Inr (data P')
       \<and> (data P' = times_row (data P) (1, t / max_thickness thick)
            \<and> (\<forall>x q. pt (data P) x (- 1) = Inr q \<longrightarrow>
                   pt (times_row (data P) (1, t / max_thickness thick)) x (- 1)
                     = Inr (fst q, snd q * (t / max_thickness thick)))
          \<longrightarrow> (\<exists>thick'. GetThick pt P' = Inr thick' \<and> max_thickness thick' = t))"
proof -
  define m where "m = max_thickness thick"
  define f where "f = t / m"
  define new where "new = times_row (data P) (1, f)"
  define nm where "nm = Name P @ ''_'' @ str_float (t * 100) @ ''%''"
  from pos t have fpos: "0 < f" by (simp add: f_def m_def)
  from pos have m0: "m \<noteq> 0" by (simp add: m_def)
  from res th ne m0 have init: "Profile2D_init None new nm = Inr P'"
    by (simp add: SetThick_def Let_def new_def f_def m_def nm_def)
  from Profile2D_init_Inr [OF init] obtain root0 where
    name: "Name P' = nm" and root: "data (rootprof P') = data P'"
    and r0: "BasicProfile2D_init new = Inr root0" and n: "Normalize root0 = Inr (rootprof P')"
    by auto
  from r0 obtain i where "root0 = \<lparr>data = [], noseindex = 0\<rparr>\<lparr>data := new, noseindex := i\<rparr>"
    unfolding BasicProfile2D_init_def by (rule SetProfile_Inr)
  then have "data root0 = new" by simp
  with Normalize_data [of root0] n root
  have norm: "map_sum id data (Normalize \<lparr>data = new, noseindex = 0\<rparr>) = Inr (data P')"
    by simp
  have trip: "\<exists>thick'. GetThick pt P' = Inr thick' \<and> max_thickness thick' = t"
    if same: "data P' = new"
      and eq: "\<forall>x q. pt (data P) x (- 1) = Inr q \<longrightarrow> pt new x (- 1) = Inr (fst q, snd q * f)"
  proof -
    let ?g = "\<lambda>self i. case Point pt self (- i) (- 1) of
               Inl e \<Rightarrow> Inl e
             | Inr up \<Rightarrow>
                 (case Point pt self i (- 1) of
                    Inl e \<Rightarrow> Inl e
                  | Inr low \<Rightarrow> Inr (i, snd up - snd low))"
    let ?h = "\<lambda>r :: real \<times> real. (fst r, snd r * f)"
    have xs: "map abs (GetXValues P') = map abs (GetXValues P)"
      by (simp add: GetXValues_abs_map same new_def times_row_fst)
    have step: "\<forall>x \<in> set (remdups (map abs (GetXValues P))). \<forall>y. ?g P x = Inr y \<longrightarrow> ?g P' x = Inr (?h y)"
    proof (intro ballI allI impI)
      fix x y assume "?g P x = Inr y"
      then obtain up low where up: "pt (data P) (- x) (- 1) = Inr up"
        and low: "pt (data P) x (- 1) = Inr low" and y: "y = (x, snd up - snd low)"
        by (auto simp: Point_def split: sum.splits)
      from eq up have "pt new (- x) (- 1) = Inr (fst up, snd up * f)" by blast
      moreover from eq low have "pt new x (- 1) = Inr (fst low, snd low * f)" by blast
      ultimately show "?g P' x = Inr (?h y)"
        by (simp add: Point_def same y left_diff_distrib)
    qed
    from th have "comprehension (?g P) (remdups (map abs (GetXValues P))) = Inr thick"
      by (simp add: GetThick_def)
    from comprehension_image [OF this step]
    have g': "GetThick pt P' = Inr (map ?h thick)"
      by (simp add: GetThick_def xs)
    have "map snd (map ?h thick) = map (\<lambda>v. v * f) (map snd thick)"
      by (simp add: comp_def)
    then have "max_thickness (map ?h thick) = max_thickness thick * f"
      using Max_scaled [of "map snd thick" f] ne fpos by (simp add: max_thickness_def)
    also have "\<dots> = t" using m0 by (simp add: f_def m_def)
    finally show ?thesis using g' by blast
  qed
  from name root norm trip show ?thesis
    unfolding nm_def new_def f_def m_def by blast
qed

lemmas eval_GetThick =
  GetThick_def GetXValues_def Point_def Point_spec_def interpolate_def nose_scan.simps

text \<open>A thin profile: the maximum thickness \<open>1/5\<close> is set to \<open>1/10\<close>.\<close>

lemma thin5_thick:
  "GetThick Point_spec
      \<lparr>data = [(1, 0), (1/2, 1/10), (0, 0), (1/2, - (1/10)), (1, 0)], noseindex = 2,
       Name = ''Profile'',
       rootprof = \<lparr>data = [(1, 0), (1/2, 1/10), (0, 0), (1/2, - (1/10)), (1, 0)], noseindex = 2\<rparr>\<rparr>
     = Inr [(0, 0), (1/2, 1/5), (1, 0)]"
  by (simp add: eval_GetThick)

lemma thin5_init:
  "Profile2D_init None [(1, 0), (1/2, 1/20), (0, 0), (1/2, - (1/20)), (1, 0)] nm
     = Inr \<lparr>data = [(1, 0), (1/2, 1/20), (0, 0), (1/2, - (1/20)), (1, 0)], noseindex = 2,
            Name = nm,
            rootprof = \<lparr>data = [(1, 0), (1/2, 1/20), (0, 0), (1/2, - (1/20)), (1, 0)], noseindex = 2\<rparr>\<rparr>"
proof -
  have s: "nose_scan [(1, 0), (1/2, 1/20), (0, 0), (1/2, - (1/20)), (1, 0)] 0 = Inr 2"
    by (simp add: nose_scan.simps)
  have l: "Normalize_loop (1, 0) [(1, 0), (1/2, 1/20), (0, 0), (1/2, - (1/20)), (1, 0)] (0, (0, 0)) = (1, (0, 0))"
    by (simp add: Vector_norm_def vsub_def power2_eq_square Let_def)
  have "Normalize \<lparr>data = [(1, 0), (1/2, 1/20), (0, 0), (1/2, - (1/20)), (1, 0)], noseindex = 2\<rparr> =
      Inr \<lparr>data = [(1, 0), (1/2, 1/20), (0, 0), (1/2, - (1/20)), (1, 0)], noseindex = 2\<rparr>"
    by (rule Normalize_fixed [where rest = "[(1/2, 1/20), (0, 0), (1/2, - (1/20)), (1, 0)]"])
      (simp_all add: l del: Normalize_loop.simps)
  with s show ?thesis
    by (simp add: Profile2D_init_def BasicProfile2D_init_def SetProfile_def)
qed

lemma thin5_SetThick:
  "SetThick Point_spec (str_is ''10.0'')
      \<lparr>data = [(1, 0), (1/2, 1/10), (0, 0), (1/2, - (1/10)), (1, 0)], noseindex = 2,
       Name = ''Profile'',
       rootprof = \<lparr>data = [(1, 0), (1/2, 1/10), (0, 0), (1/2, - (1/10)), (1, 0)], noseindex = 2\<rparr>\<rparr>
      (1/10)
     = Inr \<lparr>data = [(1, 0), (1/2, 1/20), (0, 0), (1/2, - (1/20)), (1, 0)], noseindex = 2,
            Name = ''Profile_10.0%'',
            rootprof = \<lparr>data = [(1, 0), (1/2, 1/20), (0, 0), (1/2, - (1/20)), (1, 0)], noseindex = 2\<rparr>\<rparr>"
proof -
  have "times_row [(1, 0), (1/2, 1/10), (0, 0), (1/2, - (1/10)), (1, 0)] (1, 1/10 / (1/5))
      = [(1, 0), (1/2, 1/20), (0, 0), (1/2, - (1/20)), (1, 0)]"
    by (simp add: times_row_def)
  then show ?thesis
    unfolding SetThick_def thin5_thick
    by (simp add: thin5_init Let_def max_thickness_def str_is_def)
qed

lemma thin5_thick_after:
  "GetThick Point_spec
      \<lparr>data = [(1, 0), (1/2, 1/20), (0, 0), (1/2, - (1/20)), (1, 0)], noseindex = 2,
       Name = ''Profile_10.0%'',
       rootprof = \<lparr>data = [(1, 0), (1/2, 1/20), (0, 0), (1/2, - (1/20)), (1, 0)], noseindex = 2\<rparr>\<rparr>
     = Inr [(0, 0), (1/2, 1/10), (1, 0)]"
  by (simp add: eval_GetThick)

theorem SetThick_rescales_witness:
  "SetThick Point_spec (str_is ''10.0'')
      \<lparr>data = [(1, 0), (1/2, 1/10), (0, 0), (1/2, - (1/10)), (1, 0)], noseindex = 2,
       Name = ''Profile'',
       rootprof = \<lparr>data = [(1, 0), (1/2, 1/10), (0, 0), (1/2, - (1/10)), (1, 0)], noseindex = 2\<rparr>\<rparr>
      (1/10)
     = Inr \<lparr>data = [(1, 0), (1/2, 1/20), (0, 0), (1/2, - (1/20)), (1, 0)], noseindex = 2,
            Name = ''Profile_10.0%'',
            rootprof = \<lparr>data = [(1, 0), (1/2, 1/20), (0, 0), (1/2, - (1/20)), (1, 0)], noseindex = 2\<rparr>\<rparr>
   \<and> GetThick Point_spec
      \<lparr>data = [(1, 0), (1/2, 1/20), (0, 0), (1/2, - (1/20)), (1, 0)], noseindex = 2,
       Name = ''Profile_10.0%'',
       rootprof = \<lparr>data = [(1, 0), (1/2, 1/20), (0, 0), (1/2, - (1/20)), (1, 0)], noseindex = 2\<rparr>\<rparr>
     = Inr [(0, 0), (1/2, 1/10), (1, 0)]
   \<and> max_thickness [(0, 0), (1/2, 1/10), (1, 0)] = 1/10"
proof -
  let ?P = "\<lparr>data = [(1, 0), (1/2, 1/10), (0, 0), (1/2, - (1/10)), (1, 0)], noseindex = 2,
       Name = ''Profile'',
       rootprof = \<lparr>data = [(1, 0), (1/2, 1/10), (0, 0), (1/2, - (1/10)), (1, 0)], noseindex = 2\<rparr>\<rparr>"
  let ?P' = "\<lparr>data = [(1, 0), (1/2, 1/20), (0, 0), (1/2, - (1/20)), (1, 0)], noseindex = 2,
            Name = ''Profile_10.0%'',
            rootprof = \<lparr>data = [(1, 0), (1/2, 1/20), (0, 0), (1/2, - (1/20)), (1, 0)], noseindex = 2\<rparr>\<rparr>"
  let ?thick = "[(0, 0), (1/2, 1/5), (1, 0)] :: (real \<times> real) list"
  have th: "GetThick Point_spec ?P = Inr ?thick" by (rule thin5_thick)
  have ne: "?thick \<noteq> []" by simp
  have mx: "max_thickness ?thick = 1/5" by (simp add: max_thickness_def)
  then have pos: "0 < max_thickness ?thick" by simp
  have t: "(0 :: real) < 1/10" by simp
  have res: "SetThick Point_spec (str_is ''10.0'') ?P (1/10) = Inr ?P'" by (rule thin5_SetThick)
  have same: "data ?P' = times_row (data ?P) (1, 1/10 / max_thickness ?thick)"
    unfolding mx by (simp add: times_row_def)
  have scale: "\<forall>x q. Point_spec (data ?P) x (- 1) = Inr q \<longrightarrow>
      Point_spec (times_row (data ?P) (1, 1/10 / max_thickness ?thick)) x (- 1)
        = Inr (fst q, snd q * (1/10 / max_thickness ?thick))"
    using Point_spec_scale by blast
  from SetThick_rescales [OF th ne pos t res] same scale
  obtain thick' where "GetThick Point_spec ?P' = Inr thick'" and "max_thickness thick' = 1/10"
    by blast
  with thin5_thick_after have "max_thickness [(0, 0), (1/2, 1/10), (1, 0)] = 1/10"
    by simp
  with res thin5_thick_after show ?thesis by simp
qed

text \<open>
  A thick profile: the maximum thickness \<open>1/2\<close> is set to \<open>1\<close>. After the rescaling
  the point \<open>(1/4, 1)\<close> is farther from the first point than the origin is, and the
  constructor takes it as the nose.
\<close>

lemma thick_built:
  "Profile2D_init None [(1, 0), (1/4, 1/2), (0, 0), (1/2, 0), (1, 0)] ''Profile''
     = Inr \<lparr>data = [(1, 0), (1/4, 1/2), (0, 0), (1/2, 0), (1, 0)], noseindex = 2,
            Name = ''Profile'',
            rootprof = \<lparr>data = [(1, 0), (1/4, 1/2), (0, 0), (1/2, 0), (1, 0)], noseindex = 2\<rparr>\<rparr>"
proof -
  have s: "nose_scan [(1, 0), (1/4, 1/2), (0, 0), (1/2, 0), (1, 0)] 0 = Inr 2"
    by (simp add: nose_scan.simps)
  have l: "Normalize_loop (1, 0) [(1, 0), (1/4, 1/2), (0, 0), (1/2, 0), (1, 0)] (0, (0, 0)) = (1, (0, 0))"
    by (simp add: Vector_norm_def vsub_def power2_eq_square Let_def)
  have "Normalize \<lparr>data = [(1, 0), (1/4, 1/2), (0, 0), (1/2, 0), (1, 0)], noseindex = 2\<rparr> =
      Inr \<lparr>data = [(1, 0), (1/4, 1/2), (0, 0), (1/2, 0), (1, 0)], noseindex = 2\<rparr>"
    by (rule Normalize_fixed [where rest = "[(1/4, 1/2), (0, 0), (1/2, 0), (1, 0)]"])
      (simp_all add: l del: Normalize_loop.simps)
  with s show ?thesis
    by (simp add: Profile2D_init_def BasicProfile2D_init_def SetProfile_def)
qed

lemma thick_thick:
  "GetThick Point_spec
      \<lparr>data = [(1, 0), (1/4, 1/2), (0, 0), (1/2, 0), (1, 0)], noseindex = 2,
       Name = ''Profile'',
       rootprof = \<lparr>data = [(1, 0), (1/4, 1/2), (0, 0), (1/2, 0), (1, 0)], noseindex = 2\<rparr>\<rparr>
     = Inr [(1/4, 1/2), (0, 0), (1/2, 1/3), (1, 0)]"
  by (simp add: eval_GetThick)

lemma thick_norms:
  "Vector_norm (vsub (1, 0) (1, 0)) = 0"
  "Vector_norm (vsub (1/4, 1) (1, 0)) = 5/4"
  "Vector_norm (vsub (0, 0) (1, 0)) = 1"
  "Vector_norm (vsub (1/2, 0) (1, 0)) = 1/2"
proof -
  show "Vector_norm (vsub (1, 0) (1, 0)) = 0" by (simp add: Vector_norm_def vsub_def)
  show "Vector_norm (vsub (1/4, 1) (1, 0)) = 5/4"
    unfolding Vector_norm_def vsub_def fst_conv snd_conv
    by (rule real_sqrt_unique) (simp_all add: power2_eq_square)
  show "Vector_norm (vsub (0, 0) (1, 0)) = 1" by (simp add: Vector_norm_def vsub_def)
  show "Vector_norm (vsub (1/2, 0) (1, 0)) = 1/2"
    unfolding Vector_norm_def vsub_def fst_conv snd_conv
    by (rule real_sqrt_unique) (simp_all add: power2_eq_square)
qed

lemma thick_loop:
  "Normalize_loop (1, 0) [(1, 0), (1/4, 1), (0, 0), (1/2, 0), (1, 0)] (0, (0, 0)) = (5/4, (1/4, 1))"
  by (simp add: thick_norms Let_def)

lemma thick_matrix:
  "Normalize_matrix (1, 0) (1/4, 1) (5/4) = ((12/25, - (16/25)), (16/25, 12/25))"
  using Normalize_matrix_eq [of "(1/4, 1)" "(1, 0)" "5/4"] thick_norms(2)
  by (simp add: power2_eq_square)

lemma thick_init:
  "Profile2D_init None [(1, 0), (1/4, 1), (0, 0), (1/2, 0), (1, 0)] nm
     = Inr \<lparr>data = [(1, 0), (0, 0), (13/25, - (16/25)), (19/25, - (8/25)), (1, 0)], noseindex = 1,
            Name = nm,
            rootprof = \<lparr>data = [(1, 0), (0, 0), (13/25, - (16/25)), (19/25, - (8/25)), (1, 0)],
                        noseindex = 2\<rparr>\<rparr>"
proof -
  have s: "nose_scan [(1, 0), (1/4, 1), (0, 0), (1/2, 0), (1, 0)] 0 = Inr 2"
    by (simp add: nose_scan.simps)
  have n: "Normalize \<lparr>data = [(1, 0), (1/4, 1), (0, 0), (1/2, 0), (1, 0)], noseindex = 2\<rparr> =
      Inr \<lparr>data = [(1, 0), (0, 0), (13/25, - (16/25)), (19/25, - (8/25)), (1, 0)], noseindex = 2\<rparr>"
    by (simp add: Normalize_def thick_loop thick_matrix dot2_def vsub_def del: Normalize_loop.simps)
  have s': "nose_scan [(1, 0), (0, 0), (13/25, - (16/25)), (19/25, - (8/25)), (1, 0)] 0 = Inr 1"
    by (simp add: nose_scan.simps)
  from s n s' show ?thesis
    by (simp add: Profile2D_init_def BasicProfile2D_init_def SetProfile_def)
qed

lemma thick_SetThick:
  "SetThick Point_spec (str_is ''100'')
      \<lparr>data = [(1, 0), (1/4, 1/2), (0, 0), (1/2, 0), (1, 0)], noseindex = 2,
       Name = ''Profile'',
       rootprof = \<lparr>data = [(1, 0), (1/4, 1/2), (0, 0), (1/2, 0), (1, 0)], noseindex = 2\<rparr>\<rparr>
      1
     = Inr \<lparr>data = [(1, 0), (0, 0), (13/25, - (16/25)), (19/25, - (8/25)), (1, 0)], noseindex = 1,
            Name = ''Profile_100%'',
            rootprof = \<lparr>data = [(1, 0), (0, 0), (13/25, - (16/25)), (19/25, - (8/25)), (1, 0)],
                        noseindex = 2\<rparr>\<rparr>"
proof -
  have m: "max_thickness [(1/4, 1/2), (0, 0), (1/2, 1/3), (1, 0)] = 1/2"
    by (simp add: max_thickness_def)
  have "times_row [(1, 0), (1/4, 1/2), (0, 0), (1/2, 0), (1, 0)] (1, 1 / (1/2))
      = [(1, 0), (1/4, 1), (0, 0), (1/2, 0), (1, 0)]"
    by (simp add: times_row_def)
  then show ?thesis
    unfolding SetThick_def thick_thick
    by (simp add: thick_init Let_def m str_is_def)
qed

lemma thick_thick_after:
  "GetThick Point_spec
      \<lparr>data = [(1, 0), (0, 0), (13/25, - (16/25)), (19/25, - (8/25)), (1, 0)], noseindex = 1,
       Name = ''Profile_100%'',
       rootprof = \<lparr>data = [(1, 0), (0, 0), (13/25, - (16/25)), (19/25, - (8/25)), (1, 0)],
                   noseindex = 2\<rparr>\<rparr>
     = Inr [(0, 0), (13/25, 16/25), (19/25, 8/25), (1, 0)]"
  by (simp add: eval_GetThick)

text \<open>
  C5 as stated fails: the profile built from \<open>(1, 0), (1/4, 1/2), (0, 0), (1/2, 0),
  (1, 0)\<close> has the maximum thickness \<open>1/2\<close>; after \<open>Thickness = 1\<close> its data are not
  the points rescaled in y by 2 but those points normalised about the new nose, and the
  maximum thickness read back is \<open>16/25\<close>.
\<close>

theorem SetThick_round_trip_counterexample:
  "Profile2D_init None [(1, 0), (1/4, 1/2), (0, 0), (1/2, 0), (1, 0)] ''Profile''
     = Inr \<lparr>data = [(1, 0), (1/4, 1/2), (0, 0), (1/2, 0), (1, 0)], noseindex = 2,
            Name = ''Profile'',
            rootprof = \<lparr>data = [(1, 0), (1/4, 1/2), (0, 0), (1/2, 0), (1, 0)], noseindex = 2\<rparr>\<rparr>
   \<and> map_sum id max_thickness
        (GetThick Point_spec
           \<lparr>data = [(1, 0), (1/4, 1/2), (0, 0), (1/2, 0), (1, 0)], noseindex = 2,
            Name = ''Profile'',
            rootprof = \<lparr>data = [(1, 0), (1/4, 1/2), (0, 0), (1/2, 0), (1, 0)], noseindex = 2\<rparr>\<rparr>)
     = Inr (1/2)
   \<and> SetThick Point_spec (str_is ''100'')
      \<lparr>data = [(1, 0), (1/4, 1/2), (0, 0), (1/2, 0), (1, 0)], noseindex = 2,
       Name = ''Profile'',
       rootprof = \<lparr>data = [(1, 0), (1/4, 1/2), (0, 0), (1/2, 0), (1, 0)], noseindex = 2\<rparr>\<rparr>
      1
     = Inr \<lparr>data = [(1, 0), (0, 0), (13/25, - (16/25)), (19/25, - (8/25)), (1, 0)], noseindex = 1,
            Name = ''Profile_100%'',
            rootprof = \<lparr>data = [(1, 0), (0, 0), (13/25, - (16/25)), (19/25, - (8/25)), (1, 0)],
                        noseindex = 2\<rparr>\<rparr>
   \<and> map_sum id max_thickness
        (GetThick Point_spec
           \<lparr>data = [(1, 0), (0, 0), (13/25, - (16/25)), (19/25, - (8/25)), (1, 0)], noseindex = 1,
            Name = ''Profile_100%'',
            rootprof = \<lparr>data = [(1, 0), (0, 0), (13/25, - (16/25)), (19/25, - (8/25)), (1, 0)],
                        noseindex = 2\<rparr>\<rparr>)
     = Inr (16/25)"
  unfolding thick_built thick_thick thick_SetThick thick_thick_after
  by (simp add: max_thickness_def)

end
